theory Spec2Isabelle
  imports Main "HOL-Library.Sublist"
begin

section \<open>Relationship introspection of model classes\<close>

text \<open>
  The class methods that \<^verbatim>\<open>relationships/ext.js\<close> adds to \<^verbatim>\<open>DS.Model\<close> with
  \<^verbatim>\<open>Model.reopenClass\<close>. A model class carries computed properties; each computed
  property has a metadata object, and the methods below read nothing else.
\<close>

subsection \<open>Metadata of a computed property\<close>

text \<open>\<^verbatim>\<open>meta.kind\<close> is one of the two strings \<^verbatim>\<open>'hasMany'\<close> and \<^verbatim>\<open>'belongsTo'\<close>.\<close>

datatype kind = HasMany | BelongsTo

fun kind_string :: "kind \<Rightarrow> string" where
  "kind_string HasMany = ''hasMany''"
| "kind_string BelongsTo = ''belongsTo''"

text \<open>
  \<^verbatim>\<open>options.inverse\<close> is absent (\<^verbatim>\<open>undefined\<close>), \<^verbatim>\<open>null\<close>, or a string. The code
  tests it twice: \<^verbatim>\<open>options.inverse === null\<close> and the truthiness of
  \<^verbatim>\<open>options.inverse\<close>; the empty string is falsy.
\<close>

datatype inverse_option = InverseUndefined | InverseNull | InverseName string

fun inverse_truthy :: "inverse_option \<Rightarrow> bool" where
  "inverse_truthy (InverseName s) = (s \<noteq> [])"
| "inverse_truthy _ = False"

record options =
  inverse_opt :: inverse_option
  polymorphic :: bool

text \<open>
  \<^verbatim>\<open>meta.type\<close> is what the user passed to \<^verbatim>\<open>DS.hasMany\<close> or \<^verbatim>\<open>DS.belongsTo\<close>: nothing,
  a type key, or a class (kept here as the text that string concatenation gives it).
\<close>

datatype type_spec = TypeUndefined | TypeKey string | TypeClass string

fun js_string :: "type_spec \<Rightarrow> string" where
  "js_string TypeUndefined = ''undefined''"
| "js_string (TypeKey s) = s"
| "js_string (TypeClass s) = s"

fun js_string_opt :: "string option \<Rightarrow> string" where
  "js_string_opt None = ''undefined''"
| "js_string_opt (Some s) = s"

text \<open>
  The metadata object. \<^verbatim>\<open>kind\<close>, \<^verbatim>\<open>type\<close> and \<^verbatim>\<open>options\<close> are read only where
  \<^verbatim>\<open>isRelationship\<close> holds. \<^verbatim>\<open>key\<close> is written by the introspection properties
  (\<^verbatim>\<open>meta.key = name\<close>) before the type is resolved; \<^verbatim>\<open>parentType\<close> is written by
  \<^verbatim>\<open>didDefineProperty\<close> and is kept as the text it concatenates to.
\<close>

record meta =
  isRelationship :: bool
  isAttribute :: bool
  kind :: kind
  type :: type_spec
  options :: options
  key :: "string option"
  parentType :: "string option"

subsection \<open>Model classes\<close>

text \<open>
  A class object: \<^verbatim>\<open>cid\<close> stands for the object's identity (classes are map keys and
  are compared by identity), \<^verbatim>\<open>typeKey\<close> and \<^verbatim>\<open>toString\<close> are the two texts the
  assertion messages print, \<^verbatim>\<open>superclass\<close> is \<^verbatim>\<open>type.superclass\<close>, and
  \<^verbatim>\<open>computedProperties\<close> is what \<^verbatim>\<open>eachComputedProperty\<close> enumerates, in its order.
\<close>

datatype model_class =
  ModelClass (cid: nat) (typeKey: string) (toString: string)
    (superclass: "model_class option") (computedProperties: "(string \<times> meta) list")

text \<open>
  The value of \<^verbatim>\<open>typeForRelationshipMeta(this.store, meta)\<close>: a class, or one of the two
  falsy values. The function lives in \<^verbatim>\<open>relationship-meta\<close> and asks the store; it is
  a parameter \<open>tfm\<close> of everything below.
\<close>

datatype type_result = Undefined | Null | Class model_class

fun truthy :: "type_result \<Rightarrow> bool" where
  "truthy (Class c) = True"
| "truthy _ = False"

type_synonym resolver = "meta \<Rightarrow> type_result"

text \<open>
  \<^verbatim>\<open>Ember.assert(message, test)\<close> with a falsy test stops the computation with its
  message, as the framework does in development.
\<close>

datatype error = AssertionFailed string

definition quote :: string where
  "quote = [CHR 0x27]"

subsection \<open>\<^verbatim>\<open>relationshipsByName\<close>\<close>

record relationship =
  rel_key :: "string option"
  rel_kind :: kind
  rel_type :: type_result
  rel_options :: options
  rel_parentType :: "string option"
  rel_isRelationship :: bool

text \<open>
  Modelled from the spec: \<^verbatim>\<open>relationshipFromMeta\<close> of the \<^verbatim>\<open>relationship-meta\<close> module,
  which is imported by \<^verbatim>\<open>ext.js\<close> and absent from the sources. The descriptor is the one
  documented at \<^verbatim>\<open>relationshipsByName\<close> (\<^verbatim>\<open>{ key: 'users', kind: 'hasMany', type: App.User }\<close>):
  it copies key, kind, options and parent type from the metadata and resolves the type.
\<close>

definition relationshipFromMeta :: "resolver \<Rightarrow> meta \<Rightarrow> relationship" where
  "relationshipFromMeta tfm m =
     \<lparr>rel_key = key m, rel_kind = kind m, rel_type = tfm m, rel_options = options m,
      rel_parentType = parentType m, rel_isRelationship = True\<rparr>"

text \<open>One turn of the callback of \<^verbatim>\<open>relationshipsByName\<close>, on the map built so far.\<close>

definition relationshipsByName_step ::
  "resolver \<Rightarrow> (string \<rightharpoonup> relationship) \<Rightarrow> string \<times> meta \<Rightarrow> (string \<rightharpoonup> relationship)" where
  "relationshipsByName_step tfm mp p =
     (case p of (nm, m) \<Rightarrow>
        if isRelationship m then
          (let m' = m\<lparr>key := Some nm\<rparr>;
               relationship = relationshipFromMeta tfm m';
               relationship' = relationship\<lparr>rel_type := tfm m'\<rparr>
           in mp(nm \<mapsto> relationship'))
        else mp)"

definition relationshipsByName :: "resolver \<Rightarrow> model_class \<Rightarrow> (string \<rightharpoonup> relationship)" where
  "relationshipsByName tfm c = foldl (relationshipsByName_step tfm) Map.empty (computedProperties c)"

text \<open>\<^verbatim>\<open>relationship && relationship.type\<close>: \<^verbatim>\<open>undefined\<close> when the map has no entry.\<close>

definition typeForRelationship :: "resolver \<Rightarrow> model_class \<Rightarrow> string \<Rightarrow> type_result" where
  "typeForRelationship tfm c nm =
     (case relationshipsByName tfm c nm of
        None \<Rightarrow> Undefined
      | Some relationship \<Rightarrow> rel_type relationship)"

subsection \<open>\<^verbatim>\<open>relationships\<close>\<close>

record rel_entry =
  name :: string
  entry_kind :: kind

text \<open>
  An \<^verbatim>\<open>Ember.MapWithDefault\<close> whose default is a fresh empty array: a total function from
  keys to arrays. The key is the resolved type, whatever it is.
\<close>

definition relationships_step ::
  "resolver \<Rightarrow> (type_result \<Rightarrow> rel_entry list) \<Rightarrow> string \<times> meta \<Rightarrow> (type_result \<Rightarrow> rel_entry list)" where
  "relationships_step tfm mp p =
     (case p of (nm, m) \<Rightarrow>
        if isRelationship m then
          (let t = tfm (m\<lparr>key := Some nm\<rparr>)
           in mp(t := mp t @ [\<lparr>name = nm, entry_kind = kind m\<rparr>]))
        else mp)"

definition relationships :: "resolver \<Rightarrow> model_class \<Rightarrow> type_result \<Rightarrow> rel_entry list" where
  "relationships tfm c = foldl (relationships_step tfm) (\<lambda>_. []) (computedProperties c)"

subsection \<open>\<^verbatim>\<open>inverseFor\<close>\<close>

text \<open>
  \<^verbatim>\<open>findPossibleInverses(type, inverseType, possibleRelationships)\<close> appends to the array it
  is given the entries that \<^verbatim>\<open>inverseType\<close> keeps under \<^verbatim>\<open>type\<close>, then walks to
  \<^verbatim>\<open>type.superclass\<close> with the same array. The \<^verbatim>\<open>relationships\<close> map always exists and
  its \<^verbatim>\<open>get\<close> always gives an array, so the two guards of the source never fire.
\<close>

fun findPossibleInverses ::
  "resolver \<Rightarrow> model_class \<Rightarrow> model_class \<Rightarrow> rel_entry list \<Rightarrow> rel_entry list" where
  "findPossibleInverses tfm (ModelClass i k s None ps) inverseType possibleRelationships =
     possibleRelationships @ relationships tfm inverseType (Class (ModelClass i k s None ps))"
| "findPossibleInverses tfm (ModelClass i k s (Some parent) ps) inverseType possibleRelationships =
     findPossibleInverses tfm parent inverseType
       (possibleRelationships @ relationships tfm inverseType (Class (ModelClass i k s (Some parent) ps)))"

text \<open>
  \<^verbatim>\<open>metaForProperty\<close> belongs to the host framework: the metadata of the computed
  property of that name, and an assertion when there is none.
\<close>

definition metaForProperty :: "model_class \<Rightarrow> string \<Rightarrow> error + meta" where
  "metaForProperty c nm =
     (case map_of (computedProperties c) nm of
        None \<Rightarrow> Inl (AssertionFailed
          (''metaForProperty() could not find a computed property with key '' @ quote @ nm @ quote @ ''.''))
      | Some m \<Rightarrow> Inr m)"

record inverse_descriptor =
  inv_type :: model_class
  inv_name :: string
  inv_kind :: kind

definition no_inverse_message :: "string \<Rightarrow> model_class \<Rightarrow> string" where
  "no_inverse_message inverseName inverseType =
     ''We found no inverse relationships by the name of '' @ quote @ inverseName @ quote @
     '' on the '' @ quote @ typeKey inverseType @ quote @
     '' model. This is most likely due to a missing attribute on your model definition.''"

definition multiple_inverses_message :: "string \<Rightarrow> model_class \<Rightarrow> model_class \<Rightarrow> string" where
  "multiple_inverses_message nm this inverseType =
     ''You defined the '' @ quote @ nm @ quote @ '' relationship on '' @ toString this @
     '', but multiple possible inverse relationships of type '' @ toString this @
     '' were found on '' @ toString inverseType @
     ''. Look at http://emberjs.com/guides/models/defining-models/#toc_explicit-inverses for how to explicitly specify inverses''"

text \<open>
  \<^verbatim>\<open>inverseFor(name)\<close>. \<open>Inl\<close> is a failed \<^verbatim>\<open>Ember.assert\<close>, \<open>Inr None\<close> is
  \<^verbatim>\<open>null\<close>, \<open>Inr (Some d)\<close> is the descriptor \<^verbatim>\<open>{type, name, kind}\<close>.
\<close>

definition inverseFor :: "resolver \<Rightarrow> model_class \<Rightarrow> string \<Rightarrow> error + inverse_descriptor option" where
  "inverseFor tfm this nm =
     (case typeForRelationship tfm this nm of
        Class inverseType \<Rightarrow>
          (case metaForProperty this nm of
             Inl e \<Rightarrow> Inl e
           | Inr m \<Rightarrow>
               if inverse_opt (options m) = InverseNull then Inr None
               else if inverse_truthy (inverse_opt (options m)) then
                 (case inverse_opt (options m) of
                    InverseName inverseName \<Rightarrow>
                      (case relationshipsByName tfm inverseType inverseName of
                         None \<Rightarrow> Inl (AssertionFailed (no_inverse_message inverseName inverseType))
                       | Some inverseRel \<Rightarrow>
                           Inr (Some \<lparr>inv_type = inverseType, inv_name = inverseName,
                                      inv_kind = rel_kind inverseRel\<rparr>))
                  | _ \<Rightarrow> Inr None)
               else
                 (case findPossibleInverses tfm this inverseType [] of
                    [] \<Rightarrow> Inr None
                  | [r] \<Rightarrow> Inr (Some \<lparr>inv_type = inverseType, inv_name = name r,
                                       inv_kind = entry_kind r\<rparr>)
                  | _ \<Rightarrow> Inl (AssertionFailed (multiple_inverses_message nm this inverseType))))
      | _ \<Rightarrow> Inr None)"

subsection \<open>\<^verbatim>\<open>relationshipNames\<close>, \<^verbatim>\<open>relatedTypes\<close> and \<^verbatim>\<open>fields\<close>\<close>

record relationship_names =
  hasMany :: "string list"
  belongsTo :: "string list"

definition relationshipNames_step :: "relationship_names \<Rightarrow> string \<times> meta \<Rightarrow> relationship_names" where
  "relationshipNames_step names p =
     (case p of (nm, m) \<Rightarrow>
        if isRelationship m then
          (case kind m of
             HasMany \<Rightarrow> names\<lparr>hasMany := hasMany names @ [nm]\<rparr>
           | BelongsTo \<Rightarrow> names\<lparr>belongsTo := belongsTo names @ [nm]\<rparr>)
        else names)"

definition relationshipNames :: "model_class \<Rightarrow> relationship_names" where
  "relationshipNames c =
     foldl relationshipNames_step \<lparr>hasMany = [], belongsTo = []\<rparr> (computedProperties c)"

definition type_not_found_message :: "meta \<Rightarrow> string" where
  "type_not_found_message m =
     ''You specified a hasMany ('' @ js_string (type m) @ '') on '' @ js_string_opt (parentType m) @
     '' but '' @ js_string (type m) @ '' was not found.''"

text \<open>
  The loop of \<^verbatim>\<open>relatedTypes\<close>: the first assertion stops it at a relationship whose type
  is falsy, so the second one (\<^verbatim>\<open>!!type\<close>) is never reached with a falsy type.
\<close>

fun relatedTypes_loop ::
  "resolver \<Rightarrow> (string \<times> meta) list \<Rightarrow> model_class list \<Rightarrow> error + model_class list" where
  "relatedTypes_loop tfm [] types = Inr types"
| "relatedTypes_loop tfm ((nm, m) # ps) types =
     (if isRelationship m then
        (let m' = m\<lparr>key := Some nm\<rparr>
         in case tfm m' of
              Class t \<Rightarrow>
                if t \<in> set types then relatedTypes_loop tfm ps types
                else relatedTypes_loop tfm ps (types @ [t])
            | _ \<Rightarrow> Inl (AssertionFailed (type_not_found_message m')))
      else relatedTypes_loop tfm ps types)"

definition relatedTypes :: "resolver \<Rightarrow> model_class \<Rightarrow> error + model_class list" where
  "relatedTypes tfm c = relatedTypes_loop tfm (computedProperties c) []"

definition fields_step :: "(string \<rightharpoonup> string) \<Rightarrow> string \<times> meta \<Rightarrow> (string \<rightharpoonup> string)" where
  "fields_step mp p =
     (case p of (nm, m) \<Rightarrow>
        if isRelationship m then mp(nm \<mapsto> kind_string (kind m))
        else if isAttribute m then mp(nm \<mapsto> ''attribute'')
        else mp)"

definition fields :: "model_class \<Rightarrow> (string \<rightharpoonup> string)" where
  "fields c = foldl fields_step Map.empty (computedProperties c)"

subsection \<open>\<^verbatim>\<open>didDefineProperty\<close>\<close>

text \<open>
  The hook runs once for each computed property that a class defines. Its observers belong
  to the host framework; what it leaves in the metadata is \<^verbatim>\<open>meta.parentType\<close>, the
  class being set up (kept as its text).
\<close>

definition didDefineProperty :: "string \<Rightarrow> meta \<Rightarrow> meta" where
  "didDefineProperty proto_constructor m = m\<lparr>parentType := Some proto_constructor\<rparr>"

subsection \<open>Vocabulary of the statements\<close>

text \<open>The descriptor that \<^verbatim>\<open>relationshipsByName\<close> stores for a relationship.\<close>

definition mk_relationship :: "resolver \<Rightarrow> string \<Rightarrow> meta \<Rightarrow> relationship" where
  "mk_relationship tfm nm m =
     (relationshipFromMeta tfm (m\<lparr>key := Some nm\<rparr>))\<lparr>rel_type := tfm (m\<lparr>key := Some nm\<rparr>)\<rparr>"

text \<open>A class followed by its superclasses, nearest first.\<close>

fun lineage :: "model_class \<Rightarrow> model_class list" where
  "lineage (ModelClass i k s None ps) = [ModelClass i k s None ps]"
| "lineage (ModelClass i k s (Some parent) ps) = ModelClass i k s (Some parent) ps # lineage parent"

text \<open>\<open>nm\<close> is a relationship that the class defines.\<close>

definition isRelationshipName :: "model_class \<Rightarrow> string \<Rightarrow> bool" where
  "isRelationshipName c nm = list_ex (\<lambda>(n, m). n = nm \<and> isRelationship m) (computedProperties c)"

text \<open>\<open>nm\<close> is a relationship of kind \<open>k\<close> that the class defines.\<close>

definition definesRelationship :: "model_class \<Rightarrow> string \<Rightarrow> kind \<Rightarrow> bool" where
  "definesRelationship c nm k =
     list_ex (\<lambda>(n, m). n = nm \<and> isRelationship m \<and> kind m = k) (computedProperties c)"

text \<open>
  \<open>nm\<close> is a relationship of kind \<open>k\<close> that the class \<open>t\<close> defines and whose type
  resolves to \<open>c\<close> or to one of the superclasses of \<open>c\<close>.
\<close>

definition pointsBack :: "resolver \<Rightarrow> model_class \<Rightarrow> model_class \<Rightarrow> string \<Rightarrow> kind \<Rightarrow> bool" where
  "pointsBack tfm c t nm k =
     list_ex (\<lambda>(n, m). n = nm \<and> isRelationship m \<and> kind m = k \<and>
                list_ex (\<lambda>a. tfm (m\<lparr>key := Some n\<rparr>) = Class a) (lineage c))
       (computedProperties t)"

text \<open>The first relationship, in enumeration order, whose type does not resolve.\<close>

definition firstUnresolved :: "resolver \<Rightarrow> model_class \<Rightarrow> (string \<times> meta) option" where
  "firstUnresolved tfm c =
     find (\<lambda>(n, m). isRelationship m \<and> \<not> truthy (tfm (m\<lparr>key := Some n\<rparr>))) (computedProperties c)"

subsection \<open>Example classes\<close>

text \<open>
  What \<^verbatim>\<open>DS.attr\<close>, \<^verbatim>\<open>DS.hasMany\<close> and \<^verbatim>\<open>DS.belongsTo\<close> put in the metadata, and
  \<^verbatim>\<open>DS.Model.extend\<close> with the hook above applied to each property.
\<close>

definition attr_meta :: "string \<Rightarrow> meta" where
  "attr_meta t =
     \<lparr>isRelationship = False, isAttribute = True, kind = BelongsTo, type = TypeKey t,
      options = \<lparr>inverse_opt = InverseUndefined, polymorphic = False\<rparr>, key = None, parentType = None\<rparr>"

definition hasMany_meta :: "string \<Rightarrow> inverse_option \<Rightarrow> meta" where
  "hasMany_meta t inv_o =
     \<lparr>isRelationship = True, isAttribute = False, kind = HasMany, type = TypeKey t,
      options = \<lparr>inverse_opt = inv_o, polymorphic = False\<rparr>, key = None, parentType = None\<rparr>"

definition belongsTo_meta :: "string \<Rightarrow> inverse_option \<Rightarrow> meta" where
  "belongsTo_meta t inv_o =
     \<lparr>isRelationship = True, isAttribute = False, kind = BelongsTo, type = TypeKey t,
      options = \<lparr>inverse_opt = inv_o, polymorphic = False\<rparr>, key = None, parentType = None\<rparr>"

definition DS_Model :: model_class where
  "DS_Model = ModelClass 0 [] ''DS.Model'' None []"

definition extend_class :: "model_class \<Rightarrow> nat \<Rightarrow> string \<Rightarrow> string \<Rightarrow> (string \<times> meta) list \<Rightarrow> model_class" where
  "extend_class base i k s ps =
     ModelClass i k s (Some base)
       (computedProperties base @ map (\<lambda>(n, m). (n, didDefineProperty s m)) ps)"

text \<open>A store that resolves a type key by looking it up in a table of classes.\<close>

definition store_resolver :: "(string \<times> model_class) list \<Rightarrow> resolver" where
  "store_resolver tbl m =
     (case type m of
        TypeKey k \<Rightarrow> (case map_of tbl k of Some c \<Rightarrow> Class c | None \<Rightarrow> Undefined)
      | _ \<Rightarrow> Undefined)"

text \<open>The two classes of the serializer tests.\<close>

definition test_Post :: model_class where
  "test_Post = extend_class DS_Model 1 ''post'' ''Post''
     [(''title'', attr_meta ''string''), (''comments'', hasMany_meta ''comment'' InverseNull)]"

definition test_Comment :: model_class where
  "test_Comment = extend_class DS_Model 2 ''comment'' ''Comment''
     [(''body'', attr_meta ''string''), (''post'', belongsTo_meta ''post'' InverseUndefined)]"

definition test_store :: resolver where
  "test_store = store_resolver [(''post'', test_Post), (''comment'', test_Comment)]"

text \<open>
  The blog of the documentation comments (users, owner, posts, title), with the classes it
  refers to: a user with one blog, posts with comments, a subclass of posts, and a class
  whose relationship names a type the store does not have.
\<close>

definition App_Blog :: model_class where
  "App_Blog = extend_class DS_Model 10 ''blog'' ''App.Blog''
     [(''users'', hasMany_meta ''user'' InverseUndefined),
      (''owner'', belongsTo_meta ''user'' InverseUndefined),
      (''posts'', hasMany_meta ''post'' InverseUndefined),
      (''title'', attr_meta ''string'')]"

definition App_User :: model_class where
  "App_User = extend_class DS_Model 11 ''user'' ''App.User''
     [(''blog'', belongsTo_meta ''blog'' InverseUndefined),
      (''posts'', hasMany_meta ''post'' (InverseName ''blog''))]"

definition App_Post :: model_class where
  "App_Post = extend_class DS_Model 12 ''post'' ''App.Post''
     [(''blog'', belongsTo_meta ''blog'' InverseUndefined),
      (''comments'', hasMany_meta ''comment'' InverseUndefined)]"

definition App_Comment :: model_class where
  "App_Comment = extend_class DS_Model 13 ''comment'' ''App.Comment''
     [(''author'', belongsTo_meta ''user'' InverseUndefined),
      (''post'', belongsTo_meta ''post'' (InverseName ''topic''))]"

definition App_Draft :: model_class where
  "App_Draft = extend_class App_Post 14 ''draft'' ''App.Draft'' []"

definition App_Tagged :: model_class where
  "App_Tagged = extend_class DS_Model 15 ''tagged'' ''App.Tagged''
     [(''blog'', belongsTo_meta ''blog'' InverseUndefined),
      (''tags'', hasMany_meta ''tag'' InverseUndefined)]"

definition App_store :: resolver where
  "App_store = store_resolver
     [(''blog'', App_Blog), (''user'', App_User), (''post'', App_Post),
      (''comment'', App_Comment), (''draft'', App_Draft), (''tagged'', App_Tagged)]"

section \<open>The JSON serializer of the tests\<close>

text \<open>
  Modelled from the spec: \<^verbatim>\<open>DS.JSONSerializer\<close>, the records that \<^verbatim>\<open>store.createRecord\<close>
  makes and the values they are serialized to. The serializer tests call them and their
  implementation is not among the sources, so every definition of this section follows the
  specification's description of the serializer and of its hooks (\<^verbatim>\<open>attrs\<close>,
  \<^verbatim>\<open>primaryKey\<close>, \<^verbatim>\<open>keyForAttribute\<close>, \<^verbatim>\<open>keyForRelationship\<close>,
  \<^verbatim>\<open>serializePolymorphicType\<close>, \<^verbatim>\<open>normalizePayload\<close>). The hooks that the tests install,
  their records and their payloads are translated from the tests.
\<close>

subsection \<open>Values, hashes and records\<close>

datatype js_value =
  JUndefined | JNull | JString string | JNumber int | JArray "js_value list"
  | JObject "(string \<times> js_value) list"

type_synonym hash = "(string \<times> js_value) list"

text \<open>\<^verbatim>\<open>json[key] = value\<close>: an existing key keeps its place, a new key goes last.\<close>

fun hash_set :: "hash \<Rightarrow> string \<Rightarrow> js_value \<Rightarrow> hash" where
  "hash_set [] k v = [(k, v)]"
| "hash_set ((k', v') # h) k v = (if k' = k then (k, v) # h else (k', v') # hash_set h k v)"

text \<open>\<^verbatim>\<open>hash[key]\<close>: \<^verbatim>\<open>undefined\<close> for a key that the hash does not have.\<close>

definition hash_get :: "hash \<Rightarrow> string \<Rightarrow> js_value" where
  "hash_get h k = (case map_of h k of None \<Rightarrow> JUndefined | Some v \<Rightarrow> v)"

text \<open>
  A record as \<^verbatim>\<open>store.createRecord\<close> leaves it: its class, its id, the values of its
  attributes, and the records it is related to.
\<close>

datatype model_instance =
  Instance (inst_class: model_class) (inst_id: "string option") (inst_attributes: hash)
    (inst_belongsTo: "(string \<times> model_instance option) list")
    (inst_hasMany: "(string \<times> model_instance list) list")

definition id_value :: "model_instance \<Rightarrow> js_value" where
  "id_value r = (case inst_id r of None \<Rightarrow> JNull | Some i \<Rightarrow> JString i)"

text \<open>
  A hook is a JavaScript function: it returns the hash it has written to, or throws. The
  only exception that the hooks of the tests can raise is the \<^verbatim>\<open>TypeError\<close> of reading a
  property of \<^verbatim>\<open>null\<close> or \<^verbatim>\<open>undefined\<close>.
\<close>

datatype js_error = TypeError

text \<open>The relationship argument of the tests: \<^verbatim>\<open>{key: "post", options: {}}\<close>.\<close>

datatype relationship_arg =
  RelationshipArg (arg_key: string) (arg_options: options)

subsection \<open>The serializer and its hooks\<close>

datatype serializer =
  Serializer
    (attrs: "(string \<times> string) list")
    (primaryKey: string)
    (keyForAttribute: "string \<Rightarrow> string")
    (keyForRelationship: "string \<Rightarrow> kind \<Rightarrow> string")
    (serializePolymorphicType: "model_instance \<Rightarrow> hash \<Rightarrow> relationship_arg \<Rightarrow> js_error + hash")
    (normalizePayload: "js_value \<Rightarrow> js_value")

text \<open>
  Modelled from the spec: the serializer with no hook overridden. Keys are the names
  themselves, the primary key is \<^verbatim>\<open>id\<close>, and the two remaining hooks leave their
  argument as it is (tests \<^verbatim>\<open>serializeAttribute\<close>, \<^verbatim>\<open>serializeBelongsTo\<close>).
\<close>

definition JSONSerializer :: serializer where
  "JSONSerializer =
     Serializer [] ''id'' (\<lambda>k. k) (\<lambda>k _. k) (\<lambda>_ json _. Inr json) (\<lambda>payload. payload)"

text \<open>\<^verbatim>\<open>DS.JSONSerializer.extend({...})\<close> with one member overridden.\<close>

definition with_attrs :: "serializer \<Rightarrow> (string \<times> string) list \<Rightarrow> serializer" where
  "with_attrs s a =
     Serializer a (primaryKey s) (keyForAttribute s) (keyForRelationship s)
       (serializePolymorphicType s) (normalizePayload s)"

definition with_primaryKey :: "serializer \<Rightarrow> string \<Rightarrow> serializer" where
  "with_primaryKey s k =
     Serializer (attrs s) k (keyForAttribute s) (keyForRelationship s)
       (serializePolymorphicType s) (normalizePayload s)"

definition with_keyForAttribute :: "serializer \<Rightarrow> (string \<Rightarrow> string) \<Rightarrow> serializer" where
  "with_keyForAttribute s f =
     Serializer (attrs s) (primaryKey s) f (keyForRelationship s)
       (serializePolymorphicType s) (normalizePayload s)"

definition with_keyForRelationship :: "serializer \<Rightarrow> (string \<Rightarrow> kind \<Rightarrow> string) \<Rightarrow> serializer" where
  "with_keyForRelationship s f =
     Serializer (attrs s) (primaryKey s) (keyForAttribute s) f
       (serializePolymorphicType s) (normalizePayload s)"

definition with_serializePolymorphicType ::
  "serializer \<Rightarrow> (model_instance \<Rightarrow> hash \<Rightarrow> relationship_arg \<Rightarrow> js_error + hash) \<Rightarrow> serializer" where
  "with_serializePolymorphicType s f =
     Serializer (attrs s) (primaryKey s) (keyForAttribute s) (keyForRelationship s)
       f (normalizePayload s)"

definition with_normalizePayload :: "serializer \<Rightarrow> (js_value \<Rightarrow> js_value) \<Rightarrow> serializer" where
  "with_normalizePayload s f =
     Serializer (attrs s) (primaryKey s) (keyForAttribute s) (keyForRelationship s)
       (serializePolymorphicType s) f"

text \<open>
  Modelled from the spec: the payload key of an attribute, which \<^verbatim>\<open>serializeAttribute\<close>
  computes inside \<^verbatim>\<open>DS.JSONSerializer\<close> (absent from the sources). An entry of \<^verbatim>\<open>attrs\<close>
  renames the one attribute it is given for; every other attribute goes through
  \<^verbatim>\<open>keyForAttribute\<close>.
\<close>

definition payloadKeyForAttribute :: "serializer \<Rightarrow> string \<Rightarrow> string" where
  "payloadKeyForAttribute s k =
     (case map_of (attrs s) k of Some payloadKey \<Rightarrow> payloadKey | None \<Rightarrow> keyForAttribute s k)"

text \<open>
  Modelled from the spec: \<^verbatim>\<open>serializeAttribute(record, json, key, attribute)\<close> of
  \<^verbatim>\<open>DS.JSONSerializer\<close> (absent from the sources). It writes the value of the record's
  attribute under the payload key. The attribute's type and its transform are not part of
  the description and are left out.
\<close>

definition serializeAttribute :: "serializer \<Rightarrow> model_instance \<Rightarrow> hash \<Rightarrow> string \<Rightarrow> hash" where
  "serializeAttribute s record json k =
     hash_set json (payloadKeyForAttribute s k) (hash_get (inst_attributes record) k)"

text \<open>\<^verbatim>\<open>get(record, key)\<close> of a belongs-to relationship, and the id of what it finds.\<close>

definition belongsTo_id :: "model_instance \<Rightarrow> string \<Rightarrow> js_value" where
  "belongsTo_id record k =
     (case map_of (inst_belongsTo record) k of
        Some (Some related) \<Rightarrow> id_value related
      | _ \<Rightarrow> JNull)"

text \<open>
  Modelled from the spec: \<^verbatim>\<open>serializeBelongsTo(record, json, relationship)\<close> of
  \<^verbatim>\<open>DS.JSONSerializer\<close> (absent from the sources). It writes the id of the related record,
  or \<^verbatim>\<open>null\<close> when there is none, under \<^verbatim>\<open>keyForRelationship(key, 'belongsTo')\<close>, and
  then, for a polymorphic relationship, calls the \<^verbatim>\<open>serializePolymorphicType\<close> hook on
  the hash it has written; what the hook throws, it throws.
\<close>

definition serializeBelongsTo ::
  "serializer \<Rightarrow> model_instance \<Rightarrow> hash \<Rightarrow> relationship_arg \<Rightarrow> js_error + hash" where
  "serializeBelongsTo s record json relationship =
     (let k = arg_key relationship;
          payloadKey = keyForRelationship s k BelongsTo;
          json' = hash_set json payloadKey (belongsTo_id record k)
      in if polymorphic (arg_options relationship)
         then serializePolymorphicType s record json' relationship
         else Inr json')"

text \<open>\<^verbatim>\<open>get(record, key).mapBy('id')\<close> of a has-many relationship.\<close>

definition hasMany_ids :: "model_instance \<Rightarrow> string \<Rightarrow> js_value" where
  "hasMany_ids record k =
     JArray (map id_value (case map_of (inst_hasMany record) k of
                             Some related \<Rightarrow> related | None \<Rightarrow> []))"

text \<open>
  Modelled from the spec: \<^verbatim>\<open>serializeHasMany(record, json, relationship)\<close> of
  \<^verbatim>\<open>DS.JSONSerializer\<close> (absent from the sources). It writes the ids of the related
  records under \<^verbatim>\<open>keyForRelationship(key, 'hasMany')\<close>; the description names no
  condition on the relationship.
\<close>

definition serializeHasMany :: "serializer \<Rightarrow> model_instance \<Rightarrow> hash \<Rightarrow> relationship_arg \<Rightarrow> hash" where
  "serializeHasMany s record json relationship =
     (let k = arg_key relationship;
          payloadKey = keyForRelationship s k HasMany
      in hash_set json payloadKey (hasMany_ids record k))"

text \<open>The attributes and the relationships of a class, in enumeration order.\<close>

definition attributesOf :: "model_class \<Rightarrow> (string \<times> meta) list" where
  "attributesOf c = filter (\<lambda>(n, m). isAttribute m \<and> \<not> isRelationship m) (computedProperties c)"

definition relationshipsOf :: "model_class \<Rightarrow> (string \<times> meta) list" where
  "relationshipsOf c = filter (\<lambda>(n, m). isRelationship m) (computedProperties c)"

text \<open>
  Modelled from the spec: the turn of \<^verbatim>\<open>serialize\<close> for one relationship, which goes to
  \<^verbatim>\<open>serializeBelongsTo\<close> or to \<^verbatim>\<open>serializeHasMany\<close> by its kind.
\<close>

definition serializeRelationship ::
  "serializer \<Rightarrow> model_instance \<Rightarrow> hash \<Rightarrow> string \<times> meta \<Rightarrow> js_error + hash" where
  "serializeRelationship s record json p =
     (case p of (n, m) \<Rightarrow>
        (case kind m of
           BelongsTo \<Rightarrow> serializeBelongsTo s record json (RelationshipArg n (options m))
         | HasMany \<Rightarrow> Inr (serializeHasMany s record json (RelationshipArg n (options m)))))"

text \<open>
  Modelled from the spec: the loop of \<^verbatim>\<open>serialize\<close> over the relationships, which
  stops at the first one that throws.
\<close>

fun serializeRelationships ::
  "serializer \<Rightarrow> model_instance \<Rightarrow> hash \<Rightarrow> (string \<times> meta) list \<Rightarrow> js_error + hash" where
  "serializeRelationships s record json [] = Inr json"
| "serializeRelationships s record json (p # ps) =
     (case serializeRelationship s record json p of
        Inl e \<Rightarrow> Inl e
      | Inr json' \<Rightarrow> serializeRelationships s record json' ps)"

text \<open>
  Modelled from the spec: \<^verbatim>\<open>serialize(record, options)\<close> of \<^verbatim>\<open>DS.JSONSerializer\<close> (absent
  from the sources). With \<^verbatim>\<open>includeId\<close> the id of the record goes under the primary key;
  then every attribute and every relationship of the record's class is serialized into the
  same hash.
\<close>

definition serialize :: "serializer \<Rightarrow> model_instance \<Rightarrow> bool \<Rightarrow> js_error + hash" where
  "serialize s record includeId =
     (let json0 = (if includeId
                   then (case inst_id record of
                           Some i \<Rightarrow> hash_set [] (primaryKey s) (JString i)
                         | None \<Rightarrow> [])
                   else []);
          json1 = foldl (\<lambda>json (n, m). serializeAttribute s record json n) json0
                    (attributesOf (inst_class record))
      in serializeRelationships s record json1 (relationshipsOf (inst_class record)))"

subsection \<open>Extraction\<close>

text \<open>
  The text that \<^verbatim>\<open>id + ''\<close> gives for a whole number: its decimal digits, collected
  from the last one, and a minus sign before them for a negative number.
\<close>

definition digit :: "nat \<Rightarrow> char" where
  "digit d = ''0123456789'' ! d"

fun decimal :: "nat \<Rightarrow> string \<Rightarrow> string" where
  "decimal n acc =
     (let acc' = digit (n mod 10) # acc
      in if n div 10 = 0 then acc' else decimal (n div 10) acc')"

definition number_text :: "int \<Rightarrow> string" where
  "number_text i = (if i < 0 then CHR ''-'' # decimal (nat (- i)) [] else decimal (nat i) [])"

text \<open>
  Modelled from the spec: the coercion of an id to a string, which the description of
  \<^verbatim>\<open>primaryKey\<close> asks of extraction. A number becomes its decimal text, a string stays,
  and a missing id is \<^verbatim>\<open>null\<close>.
\<close>

fun coerceId :: "js_value \<Rightarrow> js_value" where
  "coerceId (JNumber i) = JString (number_text i)"
| "coerceId (JString s) = JString s"
| "coerceId JUndefined = JNull"
| "coerceId v = v"

definition payloadKeyFor :: "serializer \<Rightarrow> string \<times> meta \<Rightarrow> string" where
  "payloadKeyFor s p =
     (case p of (n, m) \<Rightarrow>
        if isRelationship m then keyForRelationship s n (kind m) else payloadKeyForAttribute s n)"

text \<open>
  Modelled from the spec: \<^verbatim>\<open>normalize(type, hash)\<close> of \<^verbatim>\<open>DS.JSONSerializer\<close> (absent from
  the sources). The id is read from the primary key; each attribute and each relationship
  of the type is read from the payload key that serialization would write it to.
\<close>

definition normalize_json :: "serializer \<Rightarrow> model_class \<Rightarrow> hash \<Rightarrow> hash" where
  "normalize_json s t h =
     (''id'', coerceId (hash_get h (primaryKey s))) #
     map (\<lambda>(n, m). (n, hash_get h (payloadKeyFor s (n, m))))
       (attributesOf t @ relationshipsOf t)"

text \<open>
  Modelled from the spec: \<^verbatim>\<open>extractSingle(store, type, payload)\<close> of \<^verbatim>\<open>DS.JSONSerializer\<close>
  (absent from the sources). The \<^verbatim>\<open>normalizePayload\<close> hook is applied to the raw payload,
  and the hash it returns is normalized; anything else that the hook returns is handed back.
\<close>

definition extractSingle :: "serializer \<Rightarrow> model_class \<Rightarrow> js_value \<Rightarrow> js_value" where
  "extractSingle s t payload =
     (case normalizePayload s payload of
        JObject h \<Rightarrow> JObject (normalize_json s t h)
      | v \<Rightarrow> v)"

subsection \<open>Vocabulary of the statements\<close>

text \<open>The payload keys of the attributes and relationships of a class.\<close>

definition payloadKeys :: "serializer \<Rightarrow> model_class \<Rightarrow> string list" where
  "payloadKeys s c = map (payloadKeyFor s) (attributesOf c @ relationshipsOf c)"

text \<open>No relationship of the class is polymorphic, so that no hook touches the hash.\<close>

definition noPolymorphic :: "model_class \<Rightarrow> bool" where
  "noPolymorphic c = list_all (\<lambda>(n, m). \<not> polymorphic (options m)) (relationshipsOf c)"





subsection \<open>The serializers and records of the tests\<close>

text \<open>\<^verbatim>\<open>String.prototype.toUpperCase\<close> on the letters of ASCII; other bytes stay.\<close>

definition toUpperCase_char :: "char \<Rightarrow> char" where
  "toUpperCase_char c =
     (case map_of (zip ''abcdefghijklmnopqrstuvwxyz'' ''ABCDEFGHIJKLMNOPQRSTUVWXYZ'') c of
        Some u \<Rightarrow> u
      | None \<Rightarrow> c)"

definition toUpperCase :: "string \<Rightarrow> string" where
  "toUpperCase k = map toUpperCase_char k"

text \<open>\<^verbatim>\<open>keyForAttribute: function(key) { return key.toUpperCase(); }\<close>\<close>

definition upper_attribute_serializer :: serializer where
  "upper_attribute_serializer = with_keyForAttribute JSONSerializer toUpperCase"

text \<open>\<^verbatim>\<open>keyForRelationship: function(key, type) { return key.toUpperCase(); }\<close>\<close>

definition upper_relationship_serializer :: serializer where
  "upper_relationship_serializer = with_keyForRelationship JSONSerializer (\<lambda>k _. toUpperCase k)"

text \<open>
  \<^verbatim>\<open>get(record, key)\<close> on a record: the related record or \<^verbatim>\<open>null\<close> of a belongs-to
  relationship, the array of a has-many relationship, the value of an attribute, and
  \<^verbatim>\<open>undefined\<close> for a key that the record does not have.
\<close>

datatype property_value =
  NoProperty | NullProperty | AttributeValue js_value | RelatedRecord model_instance
  | RelatedRecords "model_instance list"

definition record_get :: "model_instance \<Rightarrow> string \<Rightarrow> property_value" where
  "record_get record k =
     (case map_of (inst_belongsTo record) k of
        Some (Some related) \<Rightarrow> RelatedRecord related
      | Some None \<Rightarrow> NullProperty
      | None \<Rightarrow>
          (case map_of (inst_hasMany record) k of
             Some related \<Rightarrow> RelatedRecords related
           | None \<Rightarrow>
               (case map_of (inst_attributes record) k of
                  Some v \<Rightarrow> AttributeValue v
                | None \<Rightarrow> NoProperty)))"

text \<open>
  The hook of the test \<^verbatim>\<open>serializePolymorphicType\<close>:
  \<^verbatim>\<open>belongsTo = get(record, key); json[relationship.key + "TYPE"] = belongsTo.constructor.typeKey\<close>.
  Reading \<^verbatim>\<open>constructor\<close> of \<^verbatim>\<open>null\<close> or \<^verbatim>\<open>undefined\<close> throws a \<^verbatim>\<open>TypeError\<close>; the
  constructor of a record is its class, and the constructor of any other value has no
  \<^verbatim>\<open>typeKey\<close>.
\<close>

definition test_serializePolymorphicType ::
  "model_instance \<Rightarrow> hash \<Rightarrow> relationship_arg \<Rightarrow> js_error + hash" where
  "test_serializePolymorphicType record json relationship =
     (let k = arg_key relationship
      in case record_get record k of
           RelatedRecord related \<Rightarrow>
             Inr (hash_set json (k @ ''TYPE'') (JString (typeKey (inst_class related))))
         | RelatedRecords related \<Rightarrow> Inr (hash_set json (k @ ''TYPE'') JUndefined)
         | AttributeValue JNull \<Rightarrow> Inl TypeError
         | AttributeValue JUndefined \<Rightarrow> Inl TypeError
         | AttributeValue v \<Rightarrow> Inr (hash_set json (k @ ''TYPE'') JUndefined)
         | NullProperty \<Rightarrow> Inl TypeError
         | NoProperty \<Rightarrow> Inl TypeError)"

definition polymorphic_serializer :: serializer where
  "polymorphic_serializer = with_serializePolymorphicType JSONSerializer test_serializePolymorphicType"

text \<open>\<^verbatim>\<open>attrs: { title: "title_payload_key" }\<close>\<close>

definition attrs_serializer :: serializer where
  "attrs_serializer = with_attrs JSONSerializer [(''title'', ''title_payload_key'')]"

text \<open>\<^verbatim>\<open>primaryKey: '_ID_'\<close>\<close>

definition primaryKey_serializer :: serializer where
  "primaryKey_serializer = with_primaryKey JSONSerializer ''_ID_''"

text \<open>\<^verbatim>\<open>normalizePayload: function(payload) { return payload.response; }\<close>\<close>

definition response_serializer :: serializer where
  "response_serializer =
     with_normalizePayload JSONSerializer
       (\<lambda>payload. case payload of JObject h \<Rightarrow> hash_get h ''response'' | _ \<Rightarrow> JUndefined)"

text \<open>
  \<^verbatim>\<open>createRecord(Post, { title: "Rails is omakase", id: "1" })\<close> and
  \<^verbatim>\<open>createRecord(Comment, { body: "Omakase is delicious", post: post, id: "1" })\<close>; the post
  of the \<^verbatim>\<open>serializeHasMany\<close> test has that comment.
\<close>

definition post_record :: model_instance where
  "post_record =
     Instance test_Post (Some ''1'') [(''title'', JString ''Rails is omakase'')] [] [(''comments'', [])]"

definition comment_record :: model_instance where
  "comment_record =
     Instance test_Comment (Some ''1'') [(''body'', JString ''Omakase is delicious'')]
       [(''post'', Some post_record)] []"

text \<open>\<^verbatim>\<open>createRecord(Comment, { body: "Omakase is delicious", post: null })\<close>\<close>

definition comment_without_post :: model_instance where
  "comment_without_post =
     Instance test_Comment None [(''body'', JString ''Omakase is delicious'')] [(''post'', None)] []"

definition post_with_comment :: model_instance where
  "post_with_comment =
     Instance test_Post (Some ''1'') [(''title'', JString ''Rails is omakase'')] []
       [(''comments'', [comment_record])]"

definition post_arg :: relationship_arg where
  "post_arg = RelationshipArg ''post'' \<lparr>inverse_opt = InverseUndefined, polymorphic = False\<rparr>"

definition polymorphic_post_arg :: relationship_arg where
  "polymorphic_post_arg =
     RelationshipArg ''post'' \<lparr>inverse_opt = InverseUndefined, polymorphic = True\<rparr>"

definition comments_arg :: relationship_arg where
  "comments_arg =
     RelationshipArg ''comments'' \<lparr>inverse_opt = InverseUndefined, polymorphic = False\<rparr>"

section \<open>Properties of the relationship introspection\<close>

subsection \<open>The loops, characterised\<close>

lemma rbn_step_simp:
  "relationshipsByName_step tfm mp (nm, m) =
     (if isRelationship m then mp(nm \<mapsto> mk_relationship tfm nm m) else mp)"
  by (simp add: relationshipsByName_step_def mk_relationship_def Let_def)

lemma rbn_foldl_dom:
  "dom (foldl (relationshipsByName_step tfm) mp ps) =
     dom mp \<union> {n. \<exists>m. (n, m) \<in> set ps \<and> isRelationship m}"
proof (induction ps arbitrary: mp)
  case Nil
  then show ?case by simp
next
  case (Cons p ps)
  obtain n m where p: "p = (n, m)" by (cases p)
  show ?case unfolding p by (auto simp: Cons.IH rbn_step_simp)
qed

lemma rbn_foldl_Some:
  "foldl (relationshipsByName_step tfm) mp ps nm = Some r \<Longrightarrow>
     mp nm = Some r \<or> (\<exists>m. (nm, m) \<in> set ps \<and> isRelationship m \<and> r = mk_relationship tfm nm m)"
proof (induction ps arbitrary: mp)
  case Nil
  then show ?case by simp
next
  case (Cons p ps)
  obtain n m where p: "p = (n, m)" by (cases p)
  from Cons.prems have "foldl (relationshipsByName_step tfm) (relationshipsByName_step tfm mp (n, m)) ps nm = Some r"
    by (simp add: p)
  from Cons.IH [OF this] show ?case
    by (auto simp: p rbn_step_simp split: if_splits)
qed

lemma rbn_foldl_notin:
  "nm \<notin> fst ` set ps \<Longrightarrow> foldl (relationshipsByName_step tfm) mp ps nm = mp nm"
proof (induction ps arbitrary: mp)
  case Nil
  then show ?case by simp
next
  case (Cons p ps)
  obtain n m where p: "p = (n, m)" by (cases p)
  from Cons.prems show ?case by (auto simp: p rbn_step_simp Cons.IH)
qed

lemma rbn_foldl_distinct:
  "distinct (map fst ps) \<Longrightarrow> (nm, m) \<in> set ps \<Longrightarrow> isRelationship m \<Longrightarrow>
     foldl (relationshipsByName_step tfm) mp ps nm = Some (mk_relationship tfm nm m)"
proof (induction ps arbitrary: mp)
  case Nil
  then show ?case by simp
next
  case (Cons p ps)
  obtain n' m' where p: "p = (n', m')" by (cases p)
  show ?case
  proof (cases "(nm, m) = p")
    case True
    with Cons.prems p have "nm \<notin> fst ` set ps" by auto
    from rbn_foldl_notin [OF this] True Cons.prems(3) p show ?thesis
      by (simp add: rbn_step_simp)
  next
    case False
    with Cons.prems have "(nm, m) \<in> set ps" "distinct (map fst ps)" by auto
    from Cons.IH [OF this(2) this(1) Cons.prems(3)] show ?thesis by simp
  qed
qed

lemma relationships_step_simp:
  "relationships_step tfm mp (nm, m) =
     (if isRelationship m
      then mp(tfm (m\<lparr>key := Some nm\<rparr>) := mp (tfm (m\<lparr>key := Some nm\<rparr>)) @ [\<lparr>name = nm, entry_kind = kind m\<rparr>])
      else mp)"
  by (simp add: relationships_step_def Let_def)

lemma relationships_foldl:
  "foldl (relationships_step tfm) mp ps k =
     mp k @ map (\<lambda>(n, m). \<lparr>name = n, entry_kind = kind m\<rparr>)
              (filter (\<lambda>(n, m). isRelationship m \<and> tfm (m\<lparr>key := Some n\<rparr>) = k) ps)"
proof (induction ps arbitrary: mp)
  case Nil
  then show ?case by simp
next
  case (Cons p ps)
  obtain n m where p: "p = (n, m)" by (cases p)
  show ?case by (simp add: Cons.IH p relationships_step_simp)
qed

lemma findPossibleInverses_eq:
  "findPossibleInverses tfm t inverseType acc =
     acc @ concat (map (\<lambda>a. relationships tfm inverseType (Class a)) (lineage t))"
  by (induction tfm t inverseType acc rule: findPossibleInverses.induct) simp_all

subsection \<open>Names that are not relationships\<close>

lemma isRelationshipName_iff:
  "isRelationshipName c nm \<longleftrightarrow> (\<exists>m. (nm, m) \<in> set (computedProperties c) \<and> isRelationship m)"
  by (auto simp: isRelationshipName_def list_ex_iff)

lemma dom_relationshipsByName:
  "dom (relationshipsByName tfm c) = {n. isRelationshipName c n}"
  by (simp add: relationshipsByName_def rbn_foldl_dom isRelationshipName_iff)

lemma relationshipsByName_None:
  "\<not> isRelationshipName c nm \<Longrightarrow> relationshipsByName tfm c nm = None"
  using dom_relationshipsByName [of tfm c] by blast

text \<open>
  C9. For a name that is not a relationship defined by the class, \<^verbatim>\<open>typeForRelationship\<close>
  returns \<^verbatim>\<open>undefined\<close> (it does not abort), and \<^verbatim>\<open>inverseFor\<close> returns \<^verbatim>\<open>null\<close>.
\<close>

theorem typeForRelationship_not_defined:
  "\<not> isRelationshipName c nm \<Longrightarrow>
     typeForRelationship tfm c nm = Undefined \<and> inverseFor tfm c nm = Inr None"
  by (simp add: typeForRelationship_def inverseFor_def relationshipsByName_None)

text \<open>
  On the post of the serializer tests: \<^verbatim>\<open>title\<close> is an attribute and \<^verbatim>\<open>author\<close> is
  not a property at all.
\<close>

theorem typeForRelationship_not_defined_witness:
  "\<not> isRelationshipName test_Post ''title'' \<and>
   \<not> isRelationshipName test_Post ''author'' \<and>
   typeForRelationship test_store test_Post ''title'' = Undefined \<and>
   inverseFor test_store test_Post ''title'' = Inr None \<and>
   typeForRelationship test_store test_Post ''author'' = Undefined \<and>
   inverseFor test_store test_Post ''author'' = Inr None"
proof -
  have a: "\<not> isRelationshipName test_Post ''title''"
    by (simp add: isRelationshipName_def test_Post_def extend_class_def DS_Model_def attr_meta_def
        hasMany_meta_def didDefineProperty_def)
  have b: "\<not> isRelationshipName test_Post ''author''"
    by (simp add: isRelationshipName_def test_Post_def extend_class_def DS_Model_def attr_meta_def
        hasMany_meta_def didDefineProperty_def)
  show ?thesis
    using a b typeForRelationship_not_defined [OF a, of test_store]
      typeForRelationship_not_defined [OF b, of test_store]
    by simp
qed

subsection \<open>\<^verbatim>\<open>relatedTypes\<close> and types that do not resolve\<close>

lemma relatedTypes_loop_abort:
  "find (\<lambda>(n, m). isRelationship m \<and> \<not> truthy (tfm (m\<lparr>key := Some n\<rparr>))) ps = Some (nm, m) \<Longrightarrow>
     relatedTypes_loop tfm ps types =
       Inl (AssertionFailed (type_not_found_message (m\<lparr>key := Some nm\<rparr>)))"
proof (induction tfm ps types rule: relatedTypes_loop.induct)
  case (1 tfm types)
  then show ?case by simp
next
  case (2 tfm n' m' ps types)
  show ?case
  proof (cases "isRelationship m'")
    case False
    with 2 show ?thesis by simp
  next
    case True
    show ?thesis
    proof (cases "tfm (m'\<lparr>key := Some n'\<rparr>)")
      case (Class t)
      with True 2 show ?thesis by (simp add: Let_def)
    next
      case Undefined
      with True "2.prems" show ?thesis by (simp add: Let_def)
    next
      case Null
      with True "2.prems" show ?thesis by (simp add: Let_def)
    qed
  qed
qed

lemma relatedTypes_loop_Inr:
  "relatedTypes_loop tfm ps types = Inr ts \<Longrightarrow>
     set types \<subseteq> set ts \<and>
     (\<forall>(n, m) \<in> set ps. isRelationship m \<longrightarrow> (\<exists>t \<in> set ts. tfm (m\<lparr>key := Some n\<rparr>) = Class t))"
proof (induction tfm ps types rule: relatedTypes_loop.induct)
  case (1 tfm types)
  then show ?case by simp
next
  case (2 tfm n' m' ps types)
  show ?case
  proof (cases "isRelationship m'")
    case False
    with 2 show ?thesis by simp
  next
    case True
    show ?thesis
    proof (cases "tfm (m'\<lparr>key := Some n'\<rparr>)")
      case (Class t)
      show ?thesis
      proof (cases "t \<in> set types")
        case True
        with \<open>isRelationship m'\<close> Class 2 show ?thesis by (auto simp: Let_def)
      next
        case False
        with \<open>isRelationship m'\<close> Class 2 show ?thesis by (auto simp: Let_def)
      qed
    next
      case Undefined
      with True "2.prems" show ?thesis by (simp add: Let_def)
    next
      case Null
      with True "2.prems" show ?thesis by (simp add: Let_def)
    qed
  qed
qed

lemma type_not_found_message_key:
  "type_not_found_message (m\<lparr>key := k\<rparr>) =
     ''You specified a hasMany ('' @ js_string (type m) @ '') on '' @ js_string_opt (parentType m) @
     '' but '' @ js_string (type m) @ '' was not found.''"
  by (simp add: type_not_found_message_def)

text \<open>
  C3. When some relationship of the class has a type that does not resolve, computing
  \<^verbatim>\<open>relatedTypes\<close> aborts with a failed assertion. The message is the one of the first
  such relationship in enumeration order and prints its \<^verbatim>\<open>meta.type\<close> twice. No
  relationship is left out silently: see \<open>relatedTypes_complete\<close> below.
\<close>

theorem relatedTypes_unresolved_aborts:
  assumes "(n0, m0) \<in> set (computedProperties c)" and "isRelationship m0"
    and "\<not> truthy (tfm (m0\<lparr>key := Some n0\<rparr>))"
  shows "\<exists>n m. firstUnresolved tfm c = Some (n, m) \<and>
           (n, m) \<in> set (computedProperties c) \<and> isRelationship m \<and>
           \<not> truthy (tfm (m\<lparr>key := Some n\<rparr>)) \<and>
           relatedTypes tfm c = Inl (AssertionFailed
             (''You specified a hasMany ('' @ js_string (type m) @ '') on '' @
              js_string_opt (parentType m) @ '' but '' @ js_string (type m) @ '' was not found.''))"
proof -
  let ?P = "\<lambda>(n, m). isRelationship m \<and> \<not> truthy (tfm (m\<lparr>key := Some n\<rparr>))"
  from assms have "\<exists>p \<in> set (computedProperties c). ?P p" by blast
  then obtain p where p: "find ?P (computedProperties c) = Some p"
    by (cases "find ?P (computedProperties c)") (auto simp: find_None_iff)
  obtain n m where nm: "p = (n, m)" by (cases p)
  from p nm have f: "find ?P (computedProperties c) = Some (n, m)" by simp
  then have "?P (n, m)" and "(n, m) \<in> set (computedProperties c)"
    by (auto simp: find_Some_iff in_set_conv_nth)
  moreover from relatedTypes_loop_abort [OF f]
  have "relatedTypes tfm c = Inl (AssertionFailed (type_not_found_message (m\<lparr>key := Some n\<rparr>)))"
    by (simp add: relatedTypes_def)
  ultimately show ?thesis using f
    by (auto simp: firstUnresolved_def type_not_found_message_key)
qed

lemma relatedTypes_complete:
  "relatedTypes tfm c = Inr ts \<Longrightarrow> (n, m) \<in> set (computedProperties c) \<Longrightarrow> isRelationship m \<Longrightarrow>
     \<exists>t \<in> set ts. tfm (m\<lparr>key := Some n\<rparr>) = Class t"
  using relatedTypes_loop_Inr [of tfm "computedProperties c" "[]" ts]
  by (auto simp: relatedTypes_def)

text \<open>A class with a relationship to \<^verbatim>\<open>tag\<close>, which the store does not have.\<close>

lemmas tagged_defs = App_Tagged_def App_store_def store_resolver_def extend_class_def DS_Model_def
  belongsTo_meta_def hasMany_meta_def didDefineProperty_def

theorem relatedTypes_unresolved_aborts_witness:
  "(''tags'', didDefineProperty ''App.Tagged'' (hasMany_meta ''tag'' InverseUndefined))
     \<in> set (computedProperties App_Tagged) \<and>
   \<not> truthy (App_store ((didDefineProperty ''App.Tagged'' (hasMany_meta ''tag'' InverseUndefined))\<lparr>key := Some ''tags''\<rparr>)) \<and>
   relatedTypes App_store App_Tagged =
     Inl (AssertionFailed ''You specified a hasMany (tag) on App.Tagged but tag was not found.'')"
proof -
  let ?m = "didDefineProperty ''App.Tagged'' (hasMany_meta ''tag'' InverseUndefined)"
  have a: "(''tags'', ?m) \<in> set (computedProperties App_Tagged)"
    by (simp add: tagged_defs)
  have b: "isRelationship ?m"
    by (simp add: tagged_defs)
  have c: "\<not> truthy (App_store (?m\<lparr>key := Some ''tags''\<rparr>))"
    by (simp add: tagged_defs)
  have f: "firstUnresolved App_store App_Tagged = Some (''tags'', ?m)"
    by (simp add: firstUnresolved_def tagged_defs)
  from relatedTypes_unresolved_aborts [of "''tags''" ?m App_Tagged App_store] a b c f
  have "relatedTypes App_store App_Tagged =
     Inl (AssertionFailed (''You specified a hasMany ('' @ js_string (type ?m) @ '') on '' @
              js_string_opt (parentType ?m) @ '' but '' @ js_string (type ?m) @ '' was not found.''))"
    by auto
  then have "relatedTypes App_store App_Tagged =
     Inl (AssertionFailed ''You specified a hasMany (tag) on App.Tagged but tag was not found.'')"
    by (simp add: hasMany_meta_def didDefineProperty_def)
  with a c show ?thesis by simp
qed

subsection \<open>Agreement of the introspection properties\<close>

lemma relationshipNames_step_simp:
  "relationshipNames_step names (nm, m) =
     (if isRelationship m then
        (if kind m = HasMany then names\<lparr>hasMany := hasMany names @ [nm]\<rparr>
         else names\<lparr>belongsTo := belongsTo names @ [nm]\<rparr>)
      else names)"
  by (cases "kind m") (simp_all add: relationshipNames_step_def)

lemma hasMany_foldl:
  "hasMany (foldl relationshipNames_step names ps) =
     hasMany names @ map fst (filter (\<lambda>(n, m). isRelationship m \<and> kind m = HasMany) ps)"
proof (induction ps arbitrary: names)
  case Nil
  then show ?case by simp
next
  case (Cons p ps)
  obtain n m where p: "p = (n, m)" by (cases p)
  show ?case by (simp add: Cons.IH p relationshipNames_step_simp)
qed

lemma belongsTo_foldl:
  "belongsTo (foldl relationshipNames_step names ps) =
     belongsTo names @ map fst (filter (\<lambda>(n, m). isRelationship m \<and> kind m = BelongsTo) ps)"
proof (induction ps arbitrary: names)
  case Nil
  then show ?case by simp
next
  case (Cons p ps)
  obtain n m where p: "p = (n, m)" by (cases p)
  show ?case by (cases "kind m") (simp_all add: Cons.IH p relationshipNames_step_simp)
qed

lemma set_hasMany:
  "set (hasMany (relationshipNames c)) =
     {n. \<exists>m. (n, m) \<in> set (computedProperties c) \<and> isRelationship m \<and> kind m = HasMany}"
  by (force simp: relationshipNames_def hasMany_foldl)

lemma set_belongsTo:
  "set (belongsTo (relationshipNames c)) =
     {n. \<exists>m. (n, m) \<in> set (computedProperties c) \<and> isRelationship m \<and> kind m = BelongsTo}"
  by (force simp: relationshipNames_def belongsTo_foldl)

lemma fields_step_simp:
  "fields_step mp (nm, m) =
     (if isRelationship m then mp(nm \<mapsto> kind_string (kind m))
      else if isAttribute m then mp(nm \<mapsto> ''attribute'')
      else mp)"
  by (simp add: fields_step_def)

lemma fields_foldl_notin:
  "nm \<notin> fst ` set ps \<Longrightarrow> foldl fields_step mp ps nm = mp nm"
proof (induction ps arbitrary: mp)
  case Nil
  then show ?case by simp
next
  case (Cons p ps)
  obtain n m where p: "p = (n, m)" by (cases p)
  from Cons.prems show ?case by (auto simp: p fields_step_simp Cons.IH)
qed

lemma fields_foldl_distinct:
  "distinct (map fst ps) \<Longrightarrow> (nm, m) \<in> set ps \<Longrightarrow> isRelationship m \<Longrightarrow>
     foldl fields_step mp ps nm = Some (kind_string (kind m))"
proof (induction ps arbitrary: mp)
  case Nil
  then show ?case by simp
next
  case (Cons p ps)
  show ?case
  proof (cases "(nm, m) = p")
    case True
    with Cons.prems have "nm \<notin> fst ` set ps" by force
    from fields_foldl_notin [OF this] True Cons.prems(3) show ?thesis
      by (auto simp: fields_step_simp)
  next
    case False
    with Cons.prems have "(nm, m) \<in> set ps" "distinct (map fst ps)" by auto
    from Cons.IH [OF this(2) this(1) Cons.prems(3)] show ?thesis by simp
  qed
qed

lemma relationshipsByName_distinct:
  assumes "distinct (map fst (computedProperties c))"
    and "(nm, m) \<in> set (computedProperties c)" and "isRelationship m"
  shows "relationshipsByName tfm c nm = Some (mk_relationship tfm nm m)"
  unfolding relationshipsByName_def by (rule rbn_foldl_distinct [OF assms])

lemma fields_distinct:
  assumes "distinct (map fst (computedProperties c))"
    and "(nm, m) \<in> set (computedProperties c)" and "isRelationship m"
  shows "fields c nm = Some (kind_string (kind m))"
  unfolding fields_def by (rule fields_foldl_distinct [OF assms])

lemma rel_kind_mk_relationship: "rel_kind (mk_relationship tfm nm m) = kind m"
  by (simp add: mk_relationship_def relationshipFromMeta_def)

lemma rel_type_mk_relationship: "rel_type (mk_relationship tfm nm m) = tfm (m\<lparr>key := Some nm\<rparr>)"
  by (simp add: mk_relationship_def relationshipFromMeta_def)

text \<open>
  C10. The introspection properties of a class agree. The names in the two lists of
  \<^verbatim>\<open>relationshipNames\<close> are exactly the keys of \<^verbatim>\<open>relationshipsByName\<close>; each of them
  is mapped by \<^verbatim>\<open>fields\<close> to the kind that its descriptor records; the names of the
  \<^verbatim>\<open>hasMany\<close> list have kind \<^verbatim>\<open>hasMany\<close> and those of the \<^verbatim>\<open>belongsTo\<close> list have
  kind \<^verbatim>\<open>belongsTo\<close>. The properties of an object have distinct names, which is the
  hypothesis; all five properties are read from the same definition of the class
  (\<^verbatim>\<open>relationshipNames\<close> and \<^verbatim>\<open>fields\<close> are cached by the host framework after their
  first computation).
\<close>

theorem introspection_properties_agree:
  assumes "distinct (map fst (computedProperties c))"
  shows "set (hasMany (relationshipNames c)) \<union> set (belongsTo (relationshipNames c))
           = dom (relationshipsByName tfm c) \<and>
         (\<forall>n \<in> dom (relationshipsByName tfm c). \<exists>r.
            relationshipsByName tfm c n = Some r \<and> fields c n = Some (kind_string (rel_kind r))) \<and>
         (\<forall>n \<in> set (hasMany (relationshipNames c)). \<exists>r.
            relationshipsByName tfm c n = Some r \<and> rel_kind r = HasMany) \<and>
         (\<forall>n \<in> set (belongsTo (relationshipNames c)). \<exists>r.
            relationshipsByName tfm c n = Some r \<and> rel_kind r = BelongsTo)"
proof (intro conjI ballI)
  show "set (hasMany (relationshipNames c)) \<union> set (belongsTo (relationshipNames c))
          = dom (relationshipsByName tfm c)"
  proof -
    have "\<And>m. kind m = HasMany \<or> kind m = BelongsTo"
      using kind.exhaust by blast
    then show ?thesis
      unfolding set_hasMany set_belongsTo dom_relationshipsByName isRelationshipName_iff
      by blast
  qed
next
  fix n assume "n \<in> dom (relationshipsByName tfm c)"
  then obtain m where m: "(n, m) \<in> set (computedProperties c)" "isRelationship m"
    unfolding dom_relationshipsByName isRelationshipName_iff by blast
  show "\<exists>r. relationshipsByName tfm c n = Some r \<and> fields c n = Some (kind_string (rel_kind r))"
    using relationshipsByName_distinct [OF assms m, of tfm] fields_distinct [OF assms m]
    by (simp add: rel_kind_mk_relationship)
next
  fix n assume "n \<in> set (hasMany (relationshipNames c))"
  then obtain m where m: "(n, m) \<in> set (computedProperties c)" "isRelationship m"
    and k: "kind m = HasMany"
    unfolding set_hasMany by blast
  show "\<exists>r. relationshipsByName tfm c n = Some r \<and> rel_kind r = HasMany"
    using relationshipsByName_distinct [OF assms m, of tfm] k
    by (simp add: rel_kind_mk_relationship)
next
  fix n assume "n \<in> set (belongsTo (relationshipNames c))"
  then obtain m where m: "(n, m) \<in> set (computedProperties c)" "isRelationship m"
    and k: "kind m = BelongsTo"
    unfolding set_belongsTo by blast
  show "\<exists>r. relationshipsByName tfm c n = Some r \<and> rel_kind r = BelongsTo"
    using relationshipsByName_distinct [OF assms m, of tfm] k
    by (simp add: rel_kind_mk_relationship)
qed

text \<open>The blog of the documentation comments.\<close>

lemmas ex_defs = App_Blog_def extend_class_def DS_Model_def attr_meta_def hasMany_meta_def belongsTo_meta_def didDefineProperty_def

theorem introspection_properties_agree_witness:
  "distinct (map fst (computedProperties App_Blog)) \<and>
   relationshipNames App_Blog = \<lparr>hasMany = [''users'', ''posts''], belongsTo = [''owner'']\<rparr> \<and>
   dom (relationshipsByName App_store App_Blog) = {''users'', ''posts'', ''owner''} \<and>
   fields App_Blog ''users'' = Some ''hasMany'' \<and>
   fields App_Blog ''owner'' = Some ''belongsTo'' \<and>
   fields App_Blog ''posts'' = Some ''hasMany'' \<and>
   fields App_Blog ''title'' = Some ''attribute'' \<and>
   (\<exists>r. relationshipsByName App_store App_Blog ''owner'' = Some r \<and> rel_kind r = BelongsTo)"
proof -
  have d: "distinct (map fst (computedProperties App_Blog))"
    by (simp add: ex_defs)
  have n: "relationshipNames App_Blog = \<lparr>hasMany = [''users'', ''posts''], belongsTo = [''owner'']\<rparr>"
    by (simp add: relationshipNames_def relationshipNames_step_def ex_defs)
  have f: "fields App_Blog ''users'' = Some ''hasMany''" "fields App_Blog ''owner'' = Some ''belongsTo''"
     "fields App_Blog ''posts'' = Some ''hasMany''" "fields App_Blog ''title'' = Some ''attribute''"
    by (simp_all add: fields_def fields_step_def ex_defs)
  from introspection_properties_agree [OF d, of App_store] n f d
  show ?thesis by auto
qed

subsection \<open>The assertions of \<^verbatim>\<open>inverseFor\<close>\<close>

lemma relationships_eq:
  "relationships tfm t k =
     map (\<lambda>(n, m). \<lparr>name = n, entry_kind = kind m\<rparr>)
       (filter (\<lambda>(n, m). isRelationship m \<and> tfm (m\<lparr>key := Some n\<rparr>) = k) (computedProperties t))"
  by (simp add: relationships_def relationships_foldl)

lemma pointsBack_iff:
  "pointsBack tfm c t nm k \<longleftrightarrow>
     (\<exists>m a. (nm, m) \<in> set (computedProperties t) \<and> isRelationship m \<and> kind m = k \<and>
            a \<in> set (lineage c) \<and> tfm (m\<lparr>key := Some nm\<rparr>) = Class a)"
  by (auto simp: pointsBack_def list_ex_iff)

lemma definesRelationship_iff:
  "definesRelationship t nm k \<longleftrightarrow>
     (\<exists>m. (nm, m) \<in> set (computedProperties t) \<and> isRelationship m \<and> kind m = k)"
  by (auto simp: definesRelationship_def list_ex_iff)

lemma pointsBack_defines: "pointsBack tfm c t nm k \<Longrightarrow> definesRelationship t nm k"
  by (auto simp: pointsBack_iff definesRelationship_iff)

lemma candidates_iff:
  "e \<in> set (findPossibleInverses tfm c t []) \<longleftrightarrow> pointsBack tfm c t (name e) (entry_kind e)"
proof
  assume "e \<in> set (findPossibleInverses tfm c t [])"
  then obtain a where a: "a \<in> set (lineage c)" and e: "e \<in> set (relationships tfm t (Class a))"
    by (auto simp: findPossibleInverses_eq)
  from e obtain n m where "(n, m) \<in> set (computedProperties t)" "isRelationship m"
    "tfm (m\<lparr>key := Some n\<rparr>) = Class a" "e = \<lparr>name = n, entry_kind = kind m\<rparr>"
    by (auto simp: relationships_eq)
  with a show "pointsBack tfm c t (name e) (entry_kind e)"
    by (auto simp: pointsBack_iff)
next
  assume "pointsBack tfm c t (name e) (entry_kind e)"
  then obtain m a where m: "(name e, m) \<in> set (computedProperties t)" "isRelationship m"
    "kind m = entry_kind e" and a: "a \<in> set (lineage c)" "tfm (m\<lparr>key := Some (name e)\<rparr>) = Class a"
    by (auto simp: pointsBack_iff)
  have "(name e, m) \<in> set (filter (\<lambda>(n, m). isRelationship m \<and> tfm (m\<lparr>key := Some n\<rparr>) = Class a)
                            (computedProperties t))"
    using m a by simp
  then have "(\<lambda>(n, m). \<lparr>name = n, entry_kind = kind m\<rparr>) (name e, m)
               \<in> set (relationships tfm t (Class a))"
    unfolding relationships_eq set_map by (rule imageI)
  moreover have "\<lparr>name = name e, entry_kind = entry_kind e\<rparr> = e"
    by (cases e) simp
  ultimately have "e \<in> set (relationships tfm t (Class a))"
    using m(3) by simp
  with a show "e \<in> set (findPossibleInverses tfm c t [])"
    by (auto simp: findPossibleInverses_eq)
qed

lemma no_candidates_iff:
  "findPossibleInverses tfm c t [] = [] \<longleftrightarrow> (\<forall>n k. \<not> pointsBack tfm c t n k)"
proof
  assume "findPossibleInverses tfm c t [] = []"
  then have "\<And>e. e \<notin> set (findPossibleInverses tfm c t [])" by simp
  then have "\<And>n k. \<not> pointsBack tfm c t (name \<lparr>name = n, entry_kind = k\<rparr>) (entry_kind \<lparr>name = n, entry_kind = k\<rparr>)"
    unfolding candidates_iff by blast
  then show "\<forall>n k. \<not> pointsBack tfm c t n k" by simp
next
  assume "\<forall>n k. \<not> pointsBack tfm c t n k"
  then have "\<And>e. e \<notin> set (findPossibleInverses tfm c t [])"
    unfolding candidates_iff by blast
  then show "findPossibleInverses tfm c t [] = []"
    by (cases "findPossibleInverses tfm c t []") auto
qed

lemma typeForRelationship_Class:
  assumes "typeForRelationship tfm c nm = Class t"
  shows "\<exists>m. metaForProperty c nm = Inr m"
proof -
  from assms obtain r where "relationshipsByName tfm c nm = Some r"
    by (auto simp: typeForRelationship_def split: option.splits)
  then have "nm \<in> dom (relationshipsByName tfm c)" by blast
  then have "nm \<in> fst ` set (computedProperties c)"
    unfolding dom_relationshipsByName isRelationshipName_iff by force
  then obtain m where "map_of (computedProperties c) nm = Some m"
    by (cases "map_of (computedProperties c) nm") (auto simp: map_of_eq_None_iff)
  then show ?thesis by (simp add: metaForProperty_def)
qed

lemma relationshipsByName_Some:
  "relationshipsByName tfm t nm = Some r \<Longrightarrow>
     \<exists>m. (nm, m) \<in> set (computedProperties t) \<and> isRelationship m \<and> r = mk_relationship tfm nm m"
  using rbn_foldl_Some [of tfm Map.empty "computedProperties t" nm r]
  by (simp add: relationshipsByName_def)

lemma inverseFor_falsy:
  "\<not> truthy (typeForRelationship tfm c nm) \<Longrightarrow> inverseFor tfm c nm = Inr None"
  by (cases "typeForRelationship tfm c nm") (simp_all add: inverseFor_def)

lemma inverseFor_null:
  "typeForRelationship tfm c nm = Class t \<Longrightarrow> metaForProperty c nm = Inr m \<Longrightarrow>
     inverse_opt (options m) = InverseNull \<Longrightarrow> inverseFor tfm c nm = Inr None"
  by (simp add: inverseFor_def)

lemma inverseFor_named:
  "typeForRelationship tfm c nm = Class t \<Longrightarrow> metaForProperty c nm = Inr m \<Longrightarrow>
     inverse_opt (options m) = InverseName s \<Longrightarrow> s \<noteq> [] \<Longrightarrow>
     inverseFor tfm c nm =
       (case relationshipsByName tfm t s of
          None \<Rightarrow> Inl (AssertionFailed (no_inverse_message s t))
        | Some r \<Rightarrow> Inr (Some \<lparr>inv_type = t, inv_name = s, inv_kind = rel_kind r\<rparr>))"
  by (simp add: inverseFor_def)

lemma inverseFor_unnamed:
  "typeForRelationship tfm c nm = Class t \<Longrightarrow> metaForProperty c nm = Inr m \<Longrightarrow>
     inverse_opt (options m) \<noteq> InverseNull \<Longrightarrow> \<not> inverse_truthy (inverse_opt (options m)) \<Longrightarrow>
     inverseFor tfm c nm =
       (case findPossibleInverses tfm c t [] of
          [] \<Rightarrow> Inr None
        | [r] \<Rightarrow> Inr (Some \<lparr>inv_type = t, inv_name = name r, inv_kind = entry_kind r\<rparr>)
        | _ \<Rightarrow> Inl (AssertionFailed (multiple_inverses_message nm c t)))"
  by (simp add: inverseFor_def)

lemma inverse_truthy_iff: "inverse_truthy io \<longleftrightarrow> (\<exists>s. io = InverseName s \<and> s \<noteq> [])"
  by (cases io) simp_all


text \<open>
  In the example classes, a comment names the inverse \<^verbatim>\<open>topic\<close>, which posts do not
  have, and a user's blog has two relationships to users.
\<close>

lemmas app_defs = App_Blog_def App_User_def App_Post_def App_Comment_def App_Draft_def
  App_Tagged_def App_store_def store_resolver_def extend_class_def DS_Model_def
  attr_meta_def belongsTo_meta_def hasMany_meta_def didDefineProperty_def

lemmas eval_defs = typeForRelationship_def relationshipsByName_def relationshipsByName_step_def
  relationshipFromMeta_def metaForProperty_def isRelationshipName_def


subsection \<open>What \<^verbatim>\<open>inverseFor\<close> returns\<close>

text \<open>
  C1, as the code has it. \<^verbatim>\<open>inverseFor\<close> returns \<^verbatim>\<open>null\<close> when the type of the
  relationship does not resolve, when \<^verbatim>\<open>options.inverse\<close> is \<^verbatim>\<open>null\<close>, and when no inverse
  is named and the related type has no candidate. A descriptor that it returns has the
  related type as its type and the name and kind of a relationship that the related type
  defines. When \<^verbatim>\<open>options.inverse\<close> names the inverse, the descriptor carries that name
  and nothing is checked about where the named relationship points; otherwise the
  relationship's type resolves to the original class or to one of its superclasses. A
  descriptor is returned when the named inverse is a relationship of the related type, and
  when no inverse is named and there is exactly one candidate.
\<close>

theorem inverseFor_result:
  "(\<not> truthy (typeForRelationship tfm c nm) \<longrightarrow> inverseFor tfm c nm = Inr None) \<and>
   (\<forall>t. typeForRelationship tfm c nm = Class t \<longrightarrow>
      (\<exists>m. metaForProperty c nm = Inr m \<and>
         (inverse_opt (options m) = InverseNull \<longrightarrow> inverseFor tfm c nm = Inr None) \<and>
         (\<not> inverse_truthy (inverse_opt (options m)) \<and> (\<forall>n k. \<not> pointsBack tfm c t n k) \<longrightarrow>
            inverseFor tfm c nm = Inr None) \<and>
         (\<forall>d. inverseFor tfm c nm = Inr (Some d) \<longrightarrow>
            inv_type d = t \<and> definesRelationship t (inv_name d) (inv_kind d) \<and>
            (if inverse_truthy (inverse_opt (options m))
             then inverse_opt (options m) = InverseName (inv_name d)
             else pointsBack tfm c t (inv_name d) (inv_kind d))) \<and>
         (\<forall>s. inverse_opt (options m) = InverseName s \<and> s \<noteq> [] \<and> isRelationshipName t s \<longrightarrow>
            (\<exists>k. inverseFor tfm c nm = Inr (Some \<lparr>inv_type = t, inv_name = s, inv_kind = k\<rparr>))) \<and>
         (inverse_opt (options m) \<noteq> InverseNull \<and> \<not> inverse_truthy (inverse_opt (options m)) \<and>
          length (findPossibleInverses tfm c t []) = 1 \<longrightarrow>
            (\<exists>d. inverseFor tfm c nm = Inr (Some d)))))"
proof (intro conjI allI impI)
  assume "\<not> truthy (typeForRelationship tfm c nm)"
  then show "inverseFor tfm c nm = Inr None" by (rule inverseFor_falsy)
next
  fix t assume t: "typeForRelationship tfm c nm = Class t"
  from typeForRelationship_Class [OF t] obtain m where m: "metaForProperty c nm = Inr m" ..
  let ?io = "inverse_opt (options m)"
  have null: "?io = InverseNull \<longrightarrow> inverseFor tfm c nm = Inr None"
    using inverseFor_null [OF t m] by blast
  have none: "\<not> inverse_truthy ?io \<and> (\<forall>n k. \<not> pointsBack tfm c t n k) \<longrightarrow>
            inverseFor tfm c nm = Inr None"
  proof
    assume h: "\<not> inverse_truthy ?io \<and> (\<forall>n k. \<not> pointsBack tfm c t n k)"
    then have e: "findPossibleInverses tfm c t [] = []"
      by (simp add: no_candidates_iff)
    show "inverseFor tfm c nm = Inr None"
    proof (cases "?io = InverseNull")
      case True
      with null show ?thesis by blast
    next
      case False
      with h e inverseFor_unnamed [OF t m] show ?thesis by simp
    qed
  qed
  have desc: "\<forall>d. inverseFor tfm c nm = Inr (Some d) \<longrightarrow>
            inv_type d = t \<and> definesRelationship t (inv_name d) (inv_kind d) \<and>
            (if inverse_truthy ?io then ?io = InverseName (inv_name d)
             else pointsBack tfm c t (inv_name d) (inv_kind d))"
  proof (intro allI impI)
    fix d assume d: "inverseFor tfm c nm = Inr (Some d)"
    have nn: "?io \<noteq> InverseNull"
      using d inverseFor_null [OF t m] by auto
    show "inv_type d = t \<and> definesRelationship t (inv_name d) (inv_kind d) \<and>
            (if inverse_truthy ?io then ?io = InverseName (inv_name d)
             else pointsBack tfm c t (inv_name d) (inv_kind d))"
    proof (cases "inverse_truthy ?io")
      case True
      then obtain s where s: "?io = InverseName s" "s \<noteq> []"
        by (auto simp: inverse_truthy_iff)
      from d inverseFor_named [OF t m s] obtain r where
        r: "relationshipsByName tfm t s = Some r"
        and d': "d = \<lparr>inv_type = t, inv_name = s, inv_kind = rel_kind r\<rparr>"
        by (auto split: option.splits)
      from relationshipsByName_Some [OF r] obtain pm where
        "(s, pm) \<in> set (computedProperties t)" "isRelationship pm" "r = mk_relationship tfm s pm"
        by blast
      then have "definesRelationship t s (rel_kind r)"
        by (auto simp: definesRelationship_iff rel_kind_mk_relationship)
      with True s d' show ?thesis by simp
    next
      case False
      from d inverseFor_unnamed [OF t m nn False] obtain e where
        e: "findPossibleInverses tfm c t [] = [e]"
        and d': "d = \<lparr>inv_type = t, inv_name = name e, inv_kind = entry_kind e\<rparr>"
        by (auto split: list.splits)
      from e have "e \<in> set (findPossibleInverses tfm c t [])" by simp
      then have "pointsBack tfm c t (name e) (entry_kind e)"
        by (simp add: candidates_iff)
      with False d' pointsBack_defines show ?thesis by simp
    qed
  qed
  have named: "\<forall>s. ?io = InverseName s \<and> s \<noteq> [] \<and> isRelationshipName t s \<longrightarrow>
            (\<exists>k. inverseFor tfm c nm = Inr (Some \<lparr>inv_type = t, inv_name = s, inv_kind = k\<rparr>))"
  proof (intro allI impI)
    fix s assume h: "?io = InverseName s \<and> s \<noteq> [] \<and> isRelationshipName t s"
    then have "s \<in> dom (relationshipsByName tfm t)"
      by (simp add: dom_relationshipsByName)
    then obtain r where "relationshipsByName tfm t s = Some r" by blast
    with h inverseFor_named [OF t m, of s]
    show "\<exists>k. inverseFor tfm c nm = Inr (Some \<lparr>inv_type = t, inv_name = s, inv_kind = k\<rparr>)"
      by simp
  qed
  have single: "?io \<noteq> InverseNull \<and> \<not> inverse_truthy ?io \<and>
          length (findPossibleInverses tfm c t []) = 1 \<longrightarrow>
            (\<exists>d. inverseFor tfm c nm = Inr (Some d))"
  proof
    assume h: "?io \<noteq> InverseNull \<and> \<not> inverse_truthy ?io \<and>
          length (findPossibleInverses tfm c t []) = 1"
    then obtain e where "findPossibleInverses tfm c t [] = [e]"
      by (cases "findPossibleInverses tfm c t []") auto
    with h inverseFor_unnamed [OF t m]
    show "\<exists>d. inverseFor tfm c nm = Inr (Some d)" by simp
  qed
  from m null none desc named single
  show "\<exists>m. metaForProperty c nm = Inr m \<and>
         (inverse_opt (options m) = InverseNull \<longrightarrow> inverseFor tfm c nm = Inr None) \<and>
         (\<not> inverse_truthy (inverse_opt (options m)) \<and> (\<forall>n k. \<not> pointsBack tfm c t n k) \<longrightarrow>
            inverseFor tfm c nm = Inr None) \<and>
         (\<forall>d. inverseFor tfm c nm = Inr (Some d) \<longrightarrow>
            inv_type d = t \<and> definesRelationship t (inv_name d) (inv_kind d) \<and>
            (if inverse_truthy (inverse_opt (options m))
             then inverse_opt (options m) = InverseName (inv_name d)
             else pointsBack tfm c t (inv_name d) (inv_kind d))) \<and>
         (\<forall>s. inverse_opt (options m) = InverseName s \<and> s \<noteq> [] \<and> isRelationshipName t s \<longrightarrow>
            (\<exists>k. inverseFor tfm c nm = Inr (Some \<lparr>inv_type = t, inv_name = s, inv_kind = k\<rparr>))) \<and>
         (inverse_opt (options m) \<noteq> InverseNull \<and> \<not> inverse_truthy (inverse_opt (options m)) \<and>
          length (findPossibleInverses tfm c t []) = 1 \<longrightarrow>
            (\<exists>d. inverseFor tfm c nm = Inr (Some d)))"
    by blast
qed

lemma inverseFor_single_candidate:
  assumes "typeForRelationship tfm c nm = Class t" and "metaForProperty c nm = Inr m"
    and "inverse_opt (options m) \<noteq> InverseNull" and "\<not> inverse_truthy (inverse_opt (options m))"
    and "findPossibleInverses tfm c t [] = [e]"
  shows "inverseFor tfm c nm = Inr (Some \<lparr>inv_type = t, inv_name = name e, inv_kind = entry_kind e\<rparr>)"
  using inverseFor_unnamed [OF assms(1-4)] assms(5) by simp

lemma inverseFor_named_found:
  assumes "typeForRelationship tfm c nm = Class t" and "metaForProperty c nm = Inr m"
    and "inverse_opt (options m) = InverseName s" and "s \<noteq> []"
    and "relationshipsByName tfm t s = Some r"
  shows "inverseFor tfm c nm = Inr (Some \<lparr>inv_type = t, inv_name = s, inv_kind = rel_kind r\<rparr>)"
  using inverseFor_named [OF assms(1-4)] assms(5) by simp

text \<open>
  A user's posts name the inverse \<^verbatim>\<open>blog\<close>. Posts have a \<^verbatim>\<open>blog\<close>, and it belongs to a
  blog, not to a user: the descriptor names a relationship that does not point back, and
  it is returned although the related type has no candidate at all.
\<close>

theorem inverseFor_explicit_inverse_counterexample:
  "typeForRelationship App_store App_User ''posts'' = Class App_Post \<and>
   metaForProperty App_User ''posts'' =
     Inr (didDefineProperty ''App.User'' (hasMany_meta ''post'' (InverseName ''blog''))) \<and>
   inverseFor App_store App_User ''posts'' =
     Inr (Some \<lparr>inv_type = App_Post, inv_name = ''blog'', inv_kind = BelongsTo\<rparr>) \<and>
   \<not> pointsBack App_store App_User App_Post ''blog'' BelongsTo \<and>
   findPossibleInverses App_store App_User App_Post [] = []"
proof -
  let ?m = "didDefineProperty ''App.User'' (hasMany_meta ''post'' (InverseName ''blog''))"
  have t: "typeForRelationship App_store App_User ''posts'' = Class App_Post"
    by (simp add: eval_defs app_defs)
  have m: "metaForProperty App_User ''posts'' = Inr ?m"
    by (simp add: eval_defs app_defs)
  have o: "inverse_opt (options ?m) = InverseName ''blog''"
    by (simp add: app_defs)
  have "\<exists>r. relationshipsByName App_store App_Post ''blog'' = Some r \<and> rel_kind r = BelongsTo"
    by (simp add: eval_defs app_defs)
  then obtain r where r: "relationshipsByName App_store App_Post ''blog'' = Some r"
    and k: "rel_kind r = BelongsTo" by blast
  have i: "inverseFor App_store App_User ''posts'' =
     Inr (Some \<lparr>inv_type = App_Post, inv_name = ''blog'', inv_kind = BelongsTo\<rparr>)"
    using inverseFor_named_found [OF t m o _ r] k by simp
  have e: "findPossibleInverses App_store App_User App_Post [] = []"
    by (simp add: findPossibleInverses_eq relationships_eq app_defs)
  then have "\<not> pointsBack App_store App_User App_Post ''blog'' BelongsTo"
    by (simp add: no_candidates_iff)
  with t m i e show ?thesis by blast
qed

text \<open>
  A draft (a subclass of post) finds the blog's \<^verbatim>\<open>posts\<close> through its superclass; a
  user's posts name the inverse \<^verbatim>\<open>blog\<close>; a tagged item has no candidate on the blog; its
  tags do not resolve; the comments of the test post have \<^verbatim>\<open>inverse: null\<close>.
\<close>

theorem inverseFor_result_witness:
  "typeForRelationship App_store App_Draft ''blog'' = Class App_Blog \<and>
   (\<exists>d. inverseFor App_store App_Draft ''blog'' = Inr (Some d) \<and> inv_type d = App_Blog \<and>
        definesRelationship App_Blog (inv_name d) (inv_kind d) \<and>
        pointsBack App_store App_Draft App_Blog (inv_name d) (inv_kind d)) \<and>
   inverseFor App_store App_Draft ''blog'' =
     Inr (Some \<lparr>inv_type = App_Blog, inv_name = ''posts'', inv_kind = HasMany\<rparr>) \<and>
   typeForRelationship App_store App_User ''posts'' = Class App_Post \<and>
   (\<exists>k. inverseFor App_store App_User ''posts'' =
          Inr (Some \<lparr>inv_type = App_Post, inv_name = ''blog'', inv_kind = k\<rparr>) \<and>
        definesRelationship App_Post ''blog'' k) \<and>
   typeForRelationship App_store App_Tagged ''blog'' = Class App_Blog \<and>
   inverseFor App_store App_Tagged ''blog'' = Inr None \<and>
   \<not> truthy (typeForRelationship App_store App_Tagged ''tags'') \<and>
   inverseFor App_store App_Tagged ''tags'' = Inr None \<and>
   typeForRelationship test_store test_Post ''comments'' = Class test_Comment \<and>
   inverseFor test_store test_Post ''comments'' = Inr None"
proof -
  let ?m1 = "didDefineProperty ''App.Post'' (belongsTo_meta ''blog'' InverseUndefined)"
  let ?m2 = "didDefineProperty ''App.Tagged'' (belongsTo_meta ''blog'' InverseUndefined)"
  let ?m4 = "didDefineProperty ''Post'' (hasMany_meta ''comment'' InverseNull)"
  let ?m5 = "didDefineProperty ''App.User'' (hasMany_meta ''post'' (InverseName ''blog''))"
  \<comment> \<open>a draft's blog: one candidate, found on the superclass\<close>
  have t1: "typeForRelationship App_store App_Draft ''blog'' = Class App_Blog"
    by (simp add: eval_defs app_defs)
  have m1: "metaForProperty App_Draft ''blog'' = Inr ?m1"
    by (simp add: eval_defs app_defs)
  have o1: "inverse_opt (options ?m1) \<noteq> InverseNull" "\<not> inverse_truthy (inverse_opt (options ?m1))"
    by (simp_all add: app_defs)
  have c1: "findPossibleInverses App_store App_Draft App_Blog [] =
              [\<lparr>name = ''posts'', entry_kind = HasMany\<rparr>]"
    by (simp add: findPossibleInverses_eq relationships_eq app_defs)
  then have l1: "length (findPossibleInverses App_store App_Draft App_Blog []) = 1"
    by simp
  have i1: "inverseFor App_store App_Draft ''blog'' =
              Inr (Some \<lparr>inv_type = App_Blog, inv_name = ''posts'', inv_kind = HasMany\<rparr>)"
    using inverseFor_single_candidate [OF t1 m1 o1 c1] by simp
  from inverseFor_result [of App_store App_Draft "''blog''", THEN conjunct2, rule_format, OF t1]
  obtain m where mm: "metaForProperty App_Draft ''blog'' = Inr m"
    and C: "\<And>d. inverseFor App_store App_Draft ''blog'' = Inr (Some d) \<Longrightarrow>
            inv_type d = App_Blog \<and> definesRelationship App_Blog (inv_name d) (inv_kind d) \<and>
            (if inverse_truthy (inverse_opt (options m))
             then inverse_opt (options m) = InverseName (inv_name d)
             else pointsBack App_store App_Draft App_Blog (inv_name d) (inv_kind d))"
    and E: "inverse_opt (options m) \<noteq> InverseNull \<and> \<not> inverse_truthy (inverse_opt (options m)) \<and>
          length (findPossibleInverses App_store App_Draft App_Blog []) = 1 \<longrightarrow>
            (\<exists>d. inverseFor App_store App_Draft ''blog'' = Inr (Some d))"
    by blast
  from mm m1 have m: "m = ?m1" by simp
  from E o1 l1 obtain d where d: "inverseFor App_store App_Draft ''blog'' = Inr (Some d)"
    unfolding m by blast
  from C [OF d] o1
  have "inv_type d = App_Blog \<and> definesRelationship App_Blog (inv_name d) (inv_kind d) \<and>
        pointsBack App_store App_Draft App_Blog (inv_name d) (inv_kind d)"
    unfolding m by simp
  with d have r1: "\<exists>d. inverseFor App_store App_Draft ''blog'' = Inr (Some d) \<and>
        inv_type d = App_Blog \<and> definesRelationship App_Blog (inv_name d) (inv_kind d) \<and>
        pointsBack App_store App_Draft App_Blog (inv_name d) (inv_kind d)"
    by blast
  \<comment> \<open>a user's posts: the named inverse\<close>
  have t5: "typeForRelationship App_store App_User ''posts'' = Class App_Post"
    by (simp add: eval_defs app_defs)
  have m5: "metaForProperty App_User ''posts'' = Inr ?m5"
    by (simp add: eval_defs app_defs)
  have o5: "inverse_opt (options ?m5) = InverseName ''blog''"
    by (simp add: app_defs)
  have n5: "isRelationshipName App_Post ''blog''"
    by (simp add: eval_defs app_defs)
  from inverseFor_result [of App_store App_User "''posts''", THEN conjunct2, rule_format, OF t5]
  obtain m' where mm': "metaForProperty App_User ''posts'' = Inr m'"
    and C': "\<And>d. inverseFor App_store App_User ''posts'' = Inr (Some d) \<Longrightarrow>
            inv_type d = App_Post \<and> definesRelationship App_Post (inv_name d) (inv_kind d) \<and>
            (if inverse_truthy (inverse_opt (options m'))
             then inverse_opt (options m') = InverseName (inv_name d)
             else pointsBack App_store App_User App_Post (inv_name d) (inv_kind d))"
    and D': "\<And>s. inverse_opt (options m') = InverseName s \<and> s \<noteq> [] \<and>
               isRelationshipName App_Post s \<Longrightarrow>
            (\<exists>k. inverseFor App_store App_User ''posts'' =
                   Inr (Some \<lparr>inv_type = App_Post, inv_name = s, inv_kind = k\<rparr>))"
    by blast
  from mm' m5 have m': "m' = ?m5" by simp
  from D' [of "''blog''"] o5 n5 obtain k where
    k: "inverseFor App_store App_User ''posts'' =
          Inr (Some \<lparr>inv_type = App_Post, inv_name = ''blog'', inv_kind = k\<rparr>)"
    unfolding m' by auto
  from C' [OF k] have "definesRelationship App_Post ''blog'' k" by simp
  with k have r5: "\<exists>k. inverseFor App_store App_User ''posts'' =
          Inr (Some \<lparr>inv_type = App_Post, inv_name = ''blog'', inv_kind = k\<rparr>) \<and>
        definesRelationship App_Post ''blog'' k"
    by blast
  \<comment> \<open>a tagged item's blog: no candidate\<close>
  have t2: "typeForRelationship App_store App_Tagged ''blog'' = Class App_Blog"
    by (simp add: eval_defs app_defs)
  have m2: "metaForProperty App_Tagged ''blog'' = Inr ?m2"
    by (simp add: eval_defs app_defs)
  have o2: "\<not> inverse_truthy (inverse_opt (options ?m2))"
    by (simp add: app_defs)
  have "findPossibleInverses App_store App_Tagged App_Blog [] = []"
    by (simp add: findPossibleInverses_eq relationships_eq app_defs)
  then have c2: "\<forall>n k. \<not> pointsBack App_store App_Tagged App_Blog n k"
    by (simp add: no_candidates_iff)
  from inverseFor_result [of App_store App_Tagged "''blog''", THEN conjunct2, rule_format, OF t2]
  obtain m'' where mm'': "metaForProperty App_Tagged ''blog'' = Inr m''"
    and B'': "\<not> inverse_truthy (inverse_opt (options m'')) \<and>
              (\<forall>n k. \<not> pointsBack App_store App_Tagged App_Blog n k) \<longrightarrow>
            inverseFor App_store App_Tagged ''blog'' = Inr None"
    by blast
  from mm'' m2 have m'': "m'' = ?m2" by simp
  from B'' o2 c2 have r2: "inverseFor App_store App_Tagged ''blog'' = Inr None"
    unfolding m'' by blast
  \<comment> \<open>a tagged item's tags: the type does not resolve\<close>
  have t3: "\<not> truthy (typeForRelationship App_store App_Tagged ''tags'')"
    by (simp add: eval_defs app_defs)
  from inverseFor_result [of App_store App_Tagged "''tags''", THEN conjunct1, rule_format, OF t3]
  have r3: "inverseFor App_store App_Tagged ''tags'' = Inr None" .
  \<comment> \<open>the comments of the test post: \<^verbatim>\<open>inverse: null\<close>\<close>
  have t4: "typeForRelationship test_store test_Post ''comments'' = Class test_Comment"
    by (simp add: eval_defs test_store_def test_Post_def test_Comment_def app_defs)
  have m4: "metaForProperty test_Post ''comments'' = Inr ?m4"
    by (simp add: eval_defs test_store_def test_Post_def test_Comment_def app_defs)
  have o4: "inverse_opt (options ?m4) = InverseNull"
    by (simp add: app_defs)
  from inverseFor_result [of test_store test_Post "''comments''", THEN conjunct2, rule_format, OF t4]
  obtain m''' where mm''': "metaForProperty test_Post ''comments'' = Inr m'''"
    and A''': "inverse_opt (options m''') = InverseNull \<longrightarrow>
            inverseFor test_store test_Post ''comments'' = Inr None"
    by blast
  from mm''' m4 have m''': "m''' = ?m4" by simp
  from A''' o4 have r4: "inverseFor test_store test_Post ''comments'' = Inr None"
    unfolding m''' by blast
  from t1 r1 i1 t5 r5 t2 r2 t3 r3 t4 r4 show ?thesis by blast
qed

section \<open>Properties of the serializer\<close>

subsection \<open>Hashes and the two loops of \<^verbatim>\<open>serialize\<close>\<close>

lemma map_of_hash_set: "map_of (hash_set h k v) = (map_of h)(k \<mapsto> v)"
  by (induction h k v rule: hash_set.induct) auto

lemma hash_get_hash_set:
  "hash_get (hash_set h k v) k' = (if k' = k then v else hash_get h k')"
  by (simp add: hash_get_def map_of_hash_set)

lemma hash_get_Nil: "hash_get [] k = JUndefined"
  by (simp add: hash_get_def)

lemma attribute_loop_other:
  "k \<notin> (\<lambda>(n, m). payloadKeyForAttribute s n) ` set ps \<Longrightarrow>
     hash_get (foldl (\<lambda>json (n, m). serializeAttribute s record json n) j ps) k = hash_get j k"
proof (induction ps arbitrary: j)
  case Nil
  then show ?case by simp
next
  case (Cons p ps)
  obtain n m where p: "p = (n, m)" by (cases p)
  from Cons.prems have "k \<noteq> payloadKeyForAttribute s n"
    and "k \<notin> (\<lambda>(n, m). payloadKeyForAttribute s n) ` set ps"
    by (auto simp: p)
  then show ?case
    by (simp add: Cons.IH p) (simp add: serializeAttribute_def hash_get_hash_set)
qed

lemma attribute_loop_written:
  "distinct (map (\<lambda>(n, m). payloadKeyForAttribute s n) ps) \<Longrightarrow> (nm, m) \<in> set ps \<Longrightarrow>
     hash_get (foldl (\<lambda>json (n, m). serializeAttribute s record json n) j ps)
       (payloadKeyForAttribute s nm) = hash_get (inst_attributes record) nm"
proof (induction ps arbitrary: j)
  case Nil
  then show ?case by simp
next
  case (Cons p ps)
  obtain n' m' where p: "p = (n', m')" by (cases p)
  show ?case
  proof (cases "(nm, m) = p")
    case True
    with Cons.prems(1) p
    have "payloadKeyForAttribute s nm \<notin> (\<lambda>(n, m). payloadKeyForAttribute s n) ` set ps"
      by auto
    from attribute_loop_other [OF this] True p show ?thesis
      by simp (simp add: serializeAttribute_def hash_get_hash_set)
  next
    case False
    with Cons.prems have "(nm, m) \<in> set ps"
      and "distinct (map (\<lambda>(n, m). payloadKeyForAttribute s n) ps)" by auto
    from Cons.IH [OF this(2) this(1)] show ?thesis by simp
  qed
qed

lemma serializeRelationship_plain:
  assumes "\<not> polymorphic (options m)"
  shows "\<exists>j'. serializeRelationship s record j (n, m) = Inr j' \<and>
           (\<forall>k. k \<noteq> keyForRelationship s n (kind m) \<longrightarrow> hash_get j' k = hash_get j k)"
  using assms
  by (cases "kind m")
     (simp_all add: serializeRelationship_def serializeBelongsTo_def serializeHasMany_def
        Let_def hash_get_hash_set)

lemma relationship_loop_plain:
  "\<forall>(n, m) \<in> set ps. \<not> polymorphic (options m) \<Longrightarrow>
     \<exists>j'. serializeRelationships s record j ps = Inr j' \<and>
       (\<forall>k. k \<notin> (\<lambda>(n, m). keyForRelationship s n (kind m)) ` set ps \<longrightarrow>
            hash_get j' k = hash_get j k)"
proof (induction ps arbitrary: j)
  case Nil
  then show ?case by simp
next
  case (Cons p ps)
  obtain n m where p: "p = (n, m)" by (cases p)
  from Cons.prems p have a: "\<not> polymorphic (options m)"
    and b: "\<forall>(n, m) \<in> set ps. \<not> polymorphic (options m)"
    by auto
  from serializeRelationship_plain [OF a, of s "record" j n]
  obtain j1 where j1: "serializeRelationship s record j (n, m) = Inr j1"
    and o1: "\<And>k. k \<noteq> keyForRelationship s n (kind m) \<Longrightarrow> hash_get j1 k = hash_get j k"
    by blast
  from Cons.IH [OF b, of j1]
  obtain j2 where j2: "serializeRelationships s record j1 ps = Inr j2"
    and o2: "\<And>k. k \<notin> (\<lambda>(n, m). keyForRelationship s n (kind m)) ` set ps \<Longrightarrow>
                 hash_get j2 k = hash_get j1 k"
    by blast
  have "serializeRelationships s record j (p # ps) = Inr j2"
    by (simp add: p j1 j2)
  moreover have "\<forall>k. k \<notin> (\<lambda>(n, m). keyForRelationship s n (kind m)) ` set (p # ps) \<longrightarrow>
                     hash_get j2 k = hash_get j k"
    using o1 o2 by (simp add: p)
  ultimately show ?case by blast
qed

lemma payloadKeyFor_attribute:
  "(n, m) \<in> set (attributesOf c) \<Longrightarrow> payloadKeyFor s (n, m) = payloadKeyForAttribute s n"
  by (auto simp: attributesOf_def payloadKeyFor_def)

lemma payloadKeyFor_relationship:
  "(n, m) \<in> set (relationshipsOf c) \<Longrightarrow> payloadKeyFor s (n, m) = keyForRelationship s n (kind m)"
  by (auto simp: relationshipsOf_def payloadKeyFor_def)

lemma map_payloadKeyFor_attributes:
  "map (payloadKeyFor s) (attributesOf c) = map (\<lambda>(n, m). payloadKeyForAttribute s n) (attributesOf c)"
  by (rule map_cong) (auto simp: payloadKeyFor_attribute)

lemma map_payloadKeyFor_relationships:
  "map (payloadKeyFor s) (relationshipsOf c) =
     map (\<lambda>(n, m). keyForRelationship s n (kind m)) (relationshipsOf c)"
  by (rule map_cong) (auto simp: payloadKeyFor_relationship)

lemma serialize_attribute:
  assumes d: "distinct (payloadKeys s (inst_class record))"
    and np: "noPolymorphic (inst_class record)"
    and a: "(nm, m) \<in> set (attributesOf (inst_class record))"
  shows "\<exists>json. serialize s record includeId = Inr json \<and>
           hash_get json (payloadKeyForAttribute s nm) = hash_get (inst_attributes record) nm"
proof -
  let ?c = "inst_class record"
  let ?k = "payloadKeyForAttribute s nm"
  let ?json0 = "if includeId
                then (case inst_id record of
                        Some i \<Rightarrow> hash_set [] (primaryKey s) (JString i)
                      | None \<Rightarrow> [])
                else []"
  let ?json1 = "foldl (\<lambda>json (n, m). serializeAttribute s record json n) ?json0 (attributesOf ?c)"
  from d have da: "distinct (map (\<lambda>(n, m). payloadKeyForAttribute s n) (attributesOf ?c))"
    by (simp add: payloadKeys_def map_payloadKeyFor_attributes)
  from a have "?k \<in> set (map (payloadKeyFor s) (attributesOf ?c))"
    using payloadKeyFor_attribute [OF a, of s] by force
  with d have "?k \<notin> set (map (payloadKeyFor s) (relationshipsOf ?c))"
    by (auto simp: payloadKeys_def)
  then have nk: "?k \<notin> (\<lambda>(n, m). keyForRelationship s n (kind m)) ` set (relationshipsOf ?c)"
    by (simp add: map_payloadKeyFor_relationships)
  from np have np': "\<forall>(n, m) \<in> set (relationshipsOf ?c). \<not> polymorphic (options m)"
    by (simp add: noPolymorphic_def list_all_iff)
  from relationship_loop_plain [OF np', of s "record" ?json1] nk
  obtain json where j: "serializeRelationships s record ?json1 (relationshipsOf ?c) = Inr json"
    and k: "hash_get json ?k = hash_get ?json1 ?k"
    by blast
  have "serialize s record includeId = Inr json"
    unfolding serialize_def Let_def using j by simp
  moreover have "hash_get json ?k = hash_get (inst_attributes record) nm"
    unfolding k by (rule attribute_loop_written [OF da a])
  ultimately show ?thesis by blast
qed


subsection \<open>Decimal texts\<close>

declare decimal.simps [simp del]














lemma distinct_fields:
  assumes "distinct (map fst (computedProperties t))"
  shows "distinct (map fst (attributesOf t @ relationshipsOf t))"
proof -
  let ?xs = "computedProperties t"
  let ?P = "\<lambda>(n, m). isAttribute m \<and> \<not> isRelationship m"
  let ?Q = "\<lambda>(n, m). isRelationship m"
  from assms have inj: "inj_on fst (set ?xs)" and d: "distinct ?xs"
    by (auto simp: distinct_map)
  have "distinct (map fst (filter ?P ?xs))" "distinct (map fst (filter ?Q ?xs))"
    using assms by (simp_all add: distinct_map_filter)
  moreover have "fst ` set (filter ?P ?xs) \<inter> fst ` set (filter ?Q ?xs) = {}"
  proof (rule ccontr)
    assume "fst ` set (filter ?P ?xs) \<inter> fst ` set (filter ?Q ?xs) \<noteq> {}"
    then obtain x y where x: "x \<in> set ?xs" "?P x" and y: "y \<in> set ?xs" "?Q y"
      and e: "fst x = fst y" by auto
    from inj e x(1) y(1) have "x = y" by (rule inj_onD)
    with x(2) y(2) show False by auto
  qed
  ultimately show ?thesis
    by (simp add: attributesOf_def relationshipsOf_def)
qed

lemma normalize_json_id:
  "hash_get (normalize_json s t h) ''id'' = coerceId (hash_get h (primaryKey s))"
  by (simp add: normalize_json_def hash_get_def)

lemma normalize_json_field:
  assumes d: "distinct (map fst (computedProperties t))" and n: "nm \<noteq> ''id''"
    and f: "(nm, m) \<in> set (attributesOf t @ relationshipsOf t)"
  shows "hash_get (normalize_json s t h) nm = hash_get h (payloadKeyFor s (nm, m))"
proof -
  let ?fs = "attributesOf t @ relationshipsOf t"
  let ?g = "\<lambda>(n, m). (n, hash_get h (payloadKeyFor s (n, m)))"
  have fst: "map fst (map ?g ?fs) = map fst ?fs"
    by (simp add: case_prod_unfold comp_def)
  from distinct_fields [OF d] have "distinct (map fst (map ?g ?fs))"
    unfolding fst .
  moreover from f have "?g (nm, m) \<in> set (map ?g ?fs)"
    unfolding set_map by (rule imageI)
  then have "(nm, hash_get h (payloadKeyFor s (nm, m))) \<in> set (map ?g ?fs)" by simp
  ultimately have "map_of (map ?g ?fs) nm = Some (hash_get h (payloadKeyFor s (nm, m)))"
    by (simp only: map_of_eq_Some_iff)
  with n show ?thesis
    by (simp add: normalize_json_def hash_get_def)
qed

lemma normalize_json_attribute:
  assumes "distinct (map fst (computedProperties t))" and "nm \<noteq> ''id''"
    and "(nm, m) \<in> set (attributesOf t)"
  shows "hash_get (normalize_json s t h) nm = hash_get h (payloadKeyForAttribute s nm)"
  using normalize_json_field [OF assms(1,2), of m s h] assms(3) payloadKeyFor_attribute [OF assms(3), of s]
  by simp

lemma normalize_json_relationship:
  assumes "distinct (map fst (computedProperties t))" and "nm \<noteq> ''id''"
    and "(nm, m) \<in> set (relationshipsOf t)"
  shows "hash_get (normalize_json s t h) nm = hash_get h (keyForRelationship s nm (kind m))"
  using normalize_json_field [OF assms(1,2), of m s h] assms(3) payloadKeyFor_relationship [OF assms(3), of s]
  by simp

lemma extractSingle_object:
  "normalizePayload s payload = JObject h \<Longrightarrow> extractSingle s t payload = JObject (normalize_json s t h)"
  by (simp add: extractSingle_def)

lemmas test_class_defs = test_Post_def test_Comment_def extend_class_def DS_Model_def attr_meta_def
  hasMany_meta_def belongsTo_meta_def didDefineProperty_def attributesOf_def relationshipsOf_def

lemmas test_serializer_defs = JSONSerializer_def with_attrs_def with_primaryKey_def
  with_keyForAttribute_def with_keyForRelationship_def with_serializePolymorphicType_def
  with_normalizePayload_def upper_attribute_serializer_def upper_relationship_serializer_def
  polymorphic_serializer_def attrs_serializer_def primaryKey_serializer_def
  response_serializer_def toUpperCase_def toUpperCase_char_def

lemmas test_record_defs = post_record_def comment_record_def post_with_comment_def post_arg_def
  polymorphic_post_arg_def comments_arg_def

lemmas serializer_eval = serializeAttribute_def serializeBelongsTo_def serializeHasMany_def
  serializeRelationship_def serialize_def payloadKeyForAttribute_def payloadKeyFor_def
  payloadKeys_def noPolymorphic_def normalize_json_def extractSingle_def hash_get_def id_value_def
  belongsTo_id_def hasMany_ids_def number_text_def digit_def Let_def

text \<open>
  The three tests of the serializer without hooks: \<^verbatim>\<open>serializeAttribute\<close>,
  \<^verbatim>\<open>serializeBelongsTo\<close> and \<^verbatim>\<open>serializeBelongsTo with null\<close>.
\<close>

lemma default_serializer_tests:
  "serializeAttribute JSONSerializer post_record [] ''title'' = [(''title'', JString ''Rails is omakase'')]"
  "serializeBelongsTo JSONSerializer comment_record [] post_arg = Inr [(''post'', JString ''1'')]"
  "serializeBelongsTo JSONSerializer comment_without_post [] post_arg = Inr [(''post'', JNull)]"
  by (simp_all add: serializeAttribute_def serializeBelongsTo_def payloadKeyForAttribute_def
      belongsTo_id_def id_value_def hash_get_def test_serializer_defs test_record_defs
      comment_without_post_def)

subsection \<open>The key-mapping hooks\<close>

text \<open>
  C6. \<^verbatim>\<open>serializeAttribute\<close> writes the value of an attribute under
  \<^verbatim>\<open>keyForAttribute(name)\<close> (for an attribute that \<^verbatim>\<open>attrs\<close> does not rename);
  \<^verbatim>\<open>serializeBelongsTo\<close> and \<^verbatim>\<open>serializeHasMany\<close> write the ids under
  \<^verbatim>\<open>keyForRelationship(name)\<close>; \<^verbatim>\<open>normalize\<close> reads each attribute and each relationship
  back from the same payload key. A polymorphic belongs-to also runs its hook, which is C7.
\<close>

theorem key_hooks_respected:
  "(map_of (attrs s) nm = None \<longrightarrow>
      serializeAttribute s record json nm =
        hash_set json (keyForAttribute s nm) (hash_get (inst_attributes record) nm)) \<and>
   (\<not> polymorphic (arg_options rel) \<longrightarrow>
      serializeBelongsTo s record json rel =
        Inr (hash_set json (keyForRelationship s (arg_key rel) BelongsTo)
               (belongsTo_id record (arg_key rel)))) \<and>
   serializeHasMany s record json rel =
     hash_set json (keyForRelationship s (arg_key rel) HasMany) (hasMany_ids record (arg_key rel)) \<and>
   (distinct (map fst (computedProperties t)) \<and> nm \<noteq> ''id'' \<longrightarrow>
      (\<forall>m. (nm, m) \<in> set (attributesOf t) \<and> map_of (attrs s) nm = None \<longrightarrow>
           hash_get (normalize_json s t h) nm = hash_get h (keyForAttribute s nm)) \<and>
      (\<forall>m. (nm, m) \<in> set (relationshipsOf t) \<longrightarrow>
           hash_get (normalize_json s t h) nm = hash_get h (keyForRelationship s nm (kind m))))"
proof (intro conjI impI allI)
  assume "map_of (attrs s) nm = None"
  then show "serializeAttribute s record json nm =
        hash_set json (keyForAttribute s nm) (hash_get (inst_attributes record) nm)"
    by (simp add: serializeAttribute_def payloadKeyForAttribute_def)
next
  assume "\<not> polymorphic (arg_options rel)"
  then show "serializeBelongsTo s record json rel =
        Inr (hash_set json (keyForRelationship s (arg_key rel) BelongsTo)
               (belongsTo_id record (arg_key rel)))"
    by (simp add: serializeBelongsTo_def Let_def)
next
  show "serializeHasMany s record json rel =
     hash_set json (keyForRelationship s (arg_key rel) HasMany) (hasMany_ids record (arg_key rel))"
    by (simp add: serializeHasMany_def Let_def)
next
  fix m
  assume d: "distinct (map fst (computedProperties t)) \<and> nm \<noteq> ''id''"
    and a: "(nm, m) \<in> set (attributesOf t) \<and> map_of (attrs s) nm = None"
  from d a normalize_json_attribute [of t nm m s h]
  show "hash_get (normalize_json s t h) nm = hash_get h (keyForAttribute s nm)"
    by (simp add: payloadKeyForAttribute_def)
next
  fix m
  assume d: "distinct (map fst (computedProperties t)) \<and> nm \<noteq> ''id''"
    and r: "(nm, m) \<in> set (relationshipsOf t)"
  from d r normalize_json_relationship [of t nm m s h]
  show "hash_get (normalize_json s t h) nm = hash_get h (keyForRelationship s nm (kind m))"
    by simp
qed

text \<open>
  The tests of \<^verbatim>\<open>keyForAttribute\<close> and \<^verbatim>\<open>keyForRelationship\<close>, with the hashes they expect.
\<close>

theorem key_hooks_respected_witness:
  "serializeAttribute upper_attribute_serializer post_record [] ''title'' =
     [(''TITLE'', JString ''Rails is omakase'')] \<and>
   serializeBelongsTo upper_relationship_serializer comment_record [] post_arg =
     Inr [(''POST'', JString ''1'')] \<and>
   serializeHasMany upper_relationship_serializer post_with_comment [] comments_arg =
     [(''COMMENTS'', JArray [JString ''1''])] \<and>
   hash_get (normalize_json upper_attribute_serializer test_Post
      [(''id'', JNumber 1), (''TITLE'', JString ''Rails is omakase'')]) ''title'' =
     JString ''Rails is omakase'' \<and>
   hash_get (normalize_json upper_relationship_serializer test_Post
      [(''id'', JNumber 1), (''title'', JString ''Rails is omakase''),
       (''COMMENTS'', JArray [JString ''1''])]) ''comments'' =
     JArray [JString ''1'']"
proof -
  let ?title = "didDefineProperty ''Post'' (attr_meta ''string'')"
  let ?comments = "didDefineProperty ''Post'' (hasMany_meta ''comment'' InverseNull)"
  let ?h1 = "[(''id'', JNumber 1), (''TITLE'', JString ''Rails is omakase'')]"
  let ?h2 = "[(''id'', JNumber 1), (''title'', JString ''Rails is omakase''),
              (''COMMENTS'', JArray [JString ''1''])]"
  have d: "distinct (map fst (computedProperties test_Post)) \<and> ''title'' \<noteq> ''id''"
    "distinct (map fst (computedProperties test_Post)) \<and> ''comments'' \<noteq> ''id''"
    by (simp_all add: test_class_defs)
  have a: "(''title'', ?title) \<in> set (attributesOf test_Post)"
    by (simp add: test_class_defs)
  have r: "(''comments'', ?comments) \<in> set (relationshipsOf test_Post)"
    by (simp add: test_class_defs)
  have n1: "map_of (attrs upper_attribute_serializer) ''title'' = None"
    by (simp add: test_serializer_defs)
  have p: "\<not> polymorphic (arg_options post_arg)"
    by (simp add: test_record_defs)
  from key_hooks_respected [of upper_attribute_serializer "''title''" post_record "[]" post_arg
      test_Post ?h1] n1 d(1) a
  have e1: "serializeAttribute upper_attribute_serializer post_record [] ''title'' =
             hash_set [] (keyForAttribute upper_attribute_serializer ''title'')
               (hash_get (inst_attributes post_record) ''title'')"
    and e4: "hash_get (normalize_json upper_attribute_serializer test_Post ?h1) ''title'' =
              hash_get ?h1 (keyForAttribute upper_attribute_serializer ''title'')"
    by blast+
  from key_hooks_respected [of upper_relationship_serializer "''comments''" comment_record "[]"
      post_arg test_Post ?h2] p d(2) r
  have e2: "serializeBelongsTo upper_relationship_serializer comment_record [] post_arg =
             Inr (hash_set [] (keyForRelationship upper_relationship_serializer (arg_key post_arg) BelongsTo)
                    (belongsTo_id comment_record (arg_key post_arg)))"
    and e5: "hash_get (normalize_json upper_relationship_serializer test_Post ?h2) ''comments'' =
              hash_get ?h2 (keyForRelationship upper_relationship_serializer ''comments'' (kind ?comments))"
    by blast+
  from key_hooks_respected [of upper_relationship_serializer "''comments''" post_with_comment "[]"
      comments_arg test_Post ?h2]
  have e3: "serializeHasMany upper_relationship_serializer post_with_comment [] comments_arg =
             hash_set [] (keyForRelationship upper_relationship_serializer (arg_key comments_arg) HasMany)
               (hasMany_ids post_with_comment (arg_key comments_arg))"
    by blast
  have r1: "serializeAttribute upper_attribute_serializer post_record [] ''title'' =
     [(''TITLE'', JString ''Rails is omakase'')]"
    unfolding e1 by (simp add: test_serializer_defs test_record_defs hash_get_def)
  have r2: "serializeBelongsTo upper_relationship_serializer comment_record [] post_arg =
     Inr [(''POST'', JString ''1'')]"
    unfolding e2 by (simp add: test_serializer_defs test_record_defs belongsTo_id_def id_value_def)
  have r3: "serializeHasMany upper_relationship_serializer post_with_comment [] comments_arg =
     [(''COMMENTS'', JArray [JString ''1''])]"
    unfolding e3 by (simp add: test_serializer_defs test_record_defs hasMany_ids_def id_value_def)
  have r4: "hash_get (normalize_json upper_attribute_serializer test_Post ?h1) ''title'' =
     JString ''Rails is omakase''"
    unfolding e4 by (simp add: test_serializer_defs hash_get_def)
  have r5: "hash_get (normalize_json upper_relationship_serializer test_Post ?h2) ''comments'' =
     JArray [JString ''1'']"
    unfolding e5 by (simp add: test_serializer_defs hash_get_def)
  from r1 r2 r3 r4 r5 show ?thesis by blast
qed

subsection \<open>The \<^verbatim>\<open>attrs\<close> hash\<close>

text \<open>
  C4. With \<^verbatim>\<open>attrs\<close> mapping an attribute to a payload key, \<^verbatim>\<open>serialize\<close> returns a
  hash that has the value of the attribute under that payload key, and \<^verbatim>\<open>extractSingle\<close>
  reads the attribute from that payload key. For \<^verbatim>\<open>serialize\<close> the payload keys of the
  class are distinct and no polymorphic hook runs, so that nothing else writes the key and
  nothing throws; for \<^verbatim>\<open>extractSingle\<close> the attribute is not called \<^verbatim>\<open>id\<close>.
\<close>

theorem attrs_hash_respected:
  assumes "map_of (attrs s) nm = Some payloadKey"
  shows "(\<forall>m. (nm, m) \<in> set (attributesOf (inst_class record)) \<and>
              distinct (payloadKeys s (inst_class record)) \<and>
              noPolymorphic (inst_class record) \<longrightarrow>
            (\<exists>json. serialize s record includeId = Inr json \<and>
               hash_get json payloadKey = hash_get (inst_attributes record) nm)) \<and>
         (\<forall>m h. (nm, m) \<in> set (attributesOf t) \<and> distinct (map fst (computedProperties t)) \<and>
              nm \<noteq> ''id'' \<and> normalizePayload s payload = JObject h \<longrightarrow>
            extractSingle s t payload = JObject (normalize_json s t h) \<and>
            hash_get (normalize_json s t h) nm = hash_get h payloadKey)"
proof -
  from assms have k: "payloadKeyForAttribute s nm = payloadKey"
    by (simp add: payloadKeyForAttribute_def)
  show ?thesis
    using serialize_attribute [of s "record" nm _ includeId] normalize_json_attribute [of t nm _ s]
      extractSingle_object [of s payload _ t]
    unfolding k by blast
qed

text \<open>The two tests of the \<^verbatim>\<open>attrs\<close> hash.\<close>

theorem attrs_hash_respected_witness:
  "map_of (attrs attrs_serializer) ''title'' = Some ''title_payload_key'' \<and>
   (\<exists>payload. serialize attrs_serializer post_record False = Inr payload \<and>
      hash_get payload ''title_payload_key'' = JString ''Rails is omakase'') \<and>
   (\<exists>post. extractSingle attrs_serializer test_Post
       (JObject [(''title_payload_key'', JString ''Rails is omakase'')]) = JObject post \<and>
     hash_get post ''title'' = JString ''Rails is omakase'')"
proof -
  let ?title = "didDefineProperty ''Post'' (attr_meta ''string'')"
  let ?h = "[(''title_payload_key'', JString ''Rails is omakase'')]"
  have a: "map_of (attrs attrs_serializer) ''title'' = Some ''title_payload_key''"
    by (simp add: test_serializer_defs)
  have c: "inst_class post_record = test_Post"
    by (simp add: test_record_defs)
  have m: "(''title'', ?title) \<in> set (attributesOf test_Post)"
    by (simp add: test_class_defs)
  have d: "distinct (payloadKeys attrs_serializer test_Post)"
    by (simp add: payloadKeys_def payloadKeyFor_def payloadKeyForAttribute_def
        test_serializer_defs test_class_defs)
  have np: "noPolymorphic test_Post"
    by (simp add: noPolymorphic_def test_class_defs)
  have dn: "distinct (map fst (computedProperties test_Post))" "''title'' \<noteq> ''id''"
    by (simp_all add: test_class_defs)
  have np': "normalizePayload attrs_serializer (JObject ?h) = JObject ?h"
    by (simp add: test_serializer_defs)
  note T = attrs_hash_respected [OF a, of post_record False test_Post "JObject ?h"]
  from T [THEN conjunct1, rule_format, of ?title] c m d np
  obtain payload where p: "serialize attrs_serializer post_record False = Inr payload"
    and pv: "hash_get payload ''title_payload_key'' = hash_get (inst_attributes post_record) ''title''"
    by auto
  have v: "hash_get (inst_attributes post_record) ''title'' = JString ''Rails is omakase''"
    by (simp add: test_record_defs hash_get_def)
  from T [THEN conjunct2, rule_format, of ?title ?h] m dn np'
  have e: "extractSingle attrs_serializer test_Post (JObject ?h) =
             JObject (normalize_json attrs_serializer test_Post ?h)"
    and ev: "hash_get (normalize_json attrs_serializer test_Post ?h) ''title'' =
               hash_get ?h ''title_payload_key''"
    by simp_all
  have hv: "hash_get ?h ''title_payload_key'' = JString ''Rails is omakase''"
    by (simp add: hash_get_def)
  from a p pv v e ev hv show ?thesis by simp
qed

subsection \<open>The primary key\<close>



subsection \<open>Polymorphic relationships\<close>

text \<open>
  C7. For a polymorphic relationship \<^verbatim>\<open>serializeBelongsTo\<close> calls
  \<^verbatim>\<open>serializePolymorphicType\<close> on the hash in which the id has been written: its result
  is what the hook makes of that hash, and when the hook returns a hash in which it has
  left the relationship key alone, the id is under that key in the result.
\<close>

theorem polymorphic_hook_after_id:
  assumes "polymorphic (arg_options rel)"
  shows "serializeBelongsTo s record json rel =
           serializePolymorphicType s record
             (hash_set json (keyForRelationship s (arg_key rel) BelongsTo)
                (belongsTo_id record (arg_key rel))) rel \<and>
         (\<forall>json'.
            serializePolymorphicType s record
              (hash_set json (keyForRelationship s (arg_key rel) BelongsTo)
                 (belongsTo_id record (arg_key rel))) rel = Inr json' \<and>
            hash_get json' (keyForRelationship s (arg_key rel) BelongsTo) =
              hash_get (hash_set json (keyForRelationship s (arg_key rel) BelongsTo)
                          (belongsTo_id record (arg_key rel)))
                (keyForRelationship s (arg_key rel) BelongsTo) \<longrightarrow>
            serializeBelongsTo s record json rel = Inr json' \<and>
            hash_get json' (keyForRelationship s (arg_key rel) BelongsTo) =
              belongsTo_id record (arg_key rel))"
  using assms by (simp add: serializeBelongsTo_def Let_def hash_get_hash_set)

text \<open>
  The test \<^verbatim>\<open>serializePolymorphicType\<close>: the id and the type key of the post. For a
  comment without a post the hook of the test throws, after the \<^verbatim>\<open>null\<close> has been
  written.
\<close>

theorem polymorphic_hook_after_id_witness:
  "polymorphic (arg_options polymorphic_post_arg) \<and>
   serializeBelongsTo polymorphic_serializer comment_record [] polymorphic_post_arg =
     Inr [(''post'', JString ''1''), (''postTYPE'', JString ''post'')] \<and>
   hash_get [(''post'', JString ''1''), (''postTYPE'', JString ''post'')] ''post'' =
     belongsTo_id comment_record ''post'' \<and>
   serializeBelongsTo polymorphic_serializer comment_without_post [] polymorphic_post_arg =
     Inl TypeError"
proof -
  let ?r = "[(''post'', JString ''1''), (''postTYPE'', JString ''post'')]"
  have p: "polymorphic (arg_options polymorphic_post_arg)"
    by (simp add: test_record_defs)
  have k: "arg_key polymorphic_post_arg = ''post''"
    "keyForRelationship polymorphic_serializer ''post'' BelongsTo = ''post''"
    by (simp_all add: test_serializer_defs test_record_defs)
  have b: "belongsTo_id comment_record ''post'' = JString ''1''"
    by (simp add: test_record_defs belongsTo_id_def id_value_def)
  have h: "serializePolymorphicType polymorphic_serializer comment_record
             (hash_set [] ''post'' (JString ''1'')) polymorphic_post_arg = Inr ?r"
    by (simp add: test_serializer_defs test_record_defs test_serializePolymorphicType_def
        record_get_def test_class_defs Let_def)
  have g: "hash_get ?r ''post'' = hash_get (hash_set [] ''post'' (JString ''1'')) ''post''"
    by (simp add: hash_get_def)
  note T = polymorphic_hook_after_id [OF p, of polymorphic_serializer comment_record "[]"]
  from T [THEN conjunct2, rule_format, of ?r] h g
  have r1: "serializeBelongsTo polymorphic_serializer comment_record [] polymorphic_post_arg = Inr ?r"
    and r2: "hash_get ?r ''post'' = belongsTo_id comment_record ''post''"
    by (simp_all add: k b)
  have b': "belongsTo_id comment_without_post ''post'' = JNull"
    by (simp add: comment_without_post_def belongsTo_id_def)
  have h': "serializePolymorphicType polymorphic_serializer comment_without_post
             (hash_set [] ''post'' JNull) polymorphic_post_arg = Inl TypeError"
    by (simp add: test_serializer_defs test_record_defs test_serializePolymorphicType_def
        record_get_def comment_without_post_def Let_def)
  from polymorphic_hook_after_id [OF p, of polymorphic_serializer comment_without_post "[]",
      THEN conjunct1] h'
  have r3: "serializeBelongsTo polymorphic_serializer comment_without_post [] polymorphic_post_arg =
              Inl TypeError"
    by (simp add: k b')
  from p r1 r2 r3 show ?thesis by blast
qed

subsection \<open>\<^verbatim>\<open>normalizePayload\<close>\<close>

text \<open>
  C8. \<^verbatim>\<open>extractSingle\<close> applies \<^verbatim>\<open>normalizePayload\<close> to the raw payload and reads the
  id and the attributes from the hash that the hook returns.
\<close>

theorem normalizePayload_applied_first:
  assumes "normalizePayload s payload = JObject h"
  shows "extractSingle s t payload = JObject (normalize_json s t h) \<and>
         hash_get (normalize_json s t h) ''id'' = coerceId (hash_get h (primaryKey s)) \<and>
         (\<forall>nm m. distinct (map fst (computedProperties t)) \<and> nm \<noteq> ''id'' \<and>
                 (nm, m) \<in> set (attributesOf t) \<longrightarrow>
            hash_get (normalize_json s t h) nm = hash_get h (payloadKeyForAttribute s nm))"
  using extractSingle_object [OF assms, of t] normalize_json_id [of s t h]
    normalize_json_attribute [of t _ _ s h]
  by blast

text \<open>The test whose hook returns \<^verbatim>\<open>payload.response\<close>.\<close>

theorem normalizePayload_applied_first_witness:
  "normalizePayload response_serializer
     (JObject [(''response'', JObject [(''id'', JNumber 1), (''title'', JString ''Rails is omakase'')])])
     = JObject [(''id'', JNumber 1), (''title'', JString ''Rails is omakase'')] \<and>
   (\<exists>post. extractSingle response_serializer test_Post
       (JObject [(''response'', JObject [(''id'', JNumber 1), (''title'', JString ''Rails is omakase'')])])
       = JObject post \<and>
     hash_get post ''id'' = JString ''1'' \<and>
     hash_get post ''title'' = JString ''Rails is omakase'')"
proof -
  let ?h = "[(''id'', JNumber 1), (''title'', JString ''Rails is omakase'')]"
  let ?payload = "JObject [(''response'', JObject ?h)]"
  let ?title = "didDefineProperty ''Post'' (attr_meta ''string'')"
  have n: "normalizePayload response_serializer ?payload = JObject ?h"
    by (simp add: test_serializer_defs hash_get_def)
  have d: "distinct (map fst (computedProperties test_Post))" "''title'' \<noteq> ''id''"
    "(''title'', ?title) \<in> set (attributesOf test_Post)"
    by (simp_all add: test_class_defs)
  have k: "primaryKey response_serializer = ''id''"
    "payloadKeyForAttribute response_serializer ''title'' = ''title''"
    by (simp_all add: test_serializer_defs payloadKeyForAttribute_def)
  from normalizePayload_applied_first [OF n, of test_Post] d k
  have "extractSingle response_serializer test_Post ?payload =
          JObject (normalize_json response_serializer test_Post ?h)"
    and "hash_get (normalize_json response_serializer test_Post ?h) ''id'' = coerceId (hash_get ?h ''id'')"
    and "hash_get (normalize_json response_serializer test_Post ?h) ''title'' = hash_get ?h ''title''"
    by (simp, simp, metis)
  with n show ?thesis
    by (simp add: hash_get_def number_text_def decimal.simps digit_def Let_def)
qed

end
